theory Spec2Isabelle
  imports Main
begin

section \<open>The relay\<close>

text \<open>
  The repository holds two versions of one program, \<^verbatim>\<open>src/outbound.js\<close> and
  \<^verbatim>\<open>src/unnamed/part_000\<close>. Each bridges a telephony media stream (a WebSocket accepted
  at \<^verbatim>\<open>/outbound-media-stream\<close>) and a conversational agent (a WebSocket the program
  opens to a signed URL). This theory embeds the handler of \<^verbatim>\<open>/outbound-media-stream\<close> of
  both files: the variables it closes over, the listeners it registers on the two sockets,
  and what they send, close and log. The HTTP routes that place the call and answer with
  TwiML are not part of it.
\<close>

section \<open>JavaScript values\<close>

text \<open>
  The listeners work on what \<^verbatim>\<open>JSON.parse\<close> returns: a JSON value. Reading a property
  that is absent gives \<^verbatim>\<open>undefined\<close>, which is not a JSON value, so a JavaScript value is
  either \<open>Undefined\<close> or a JSON value. Numbers stand for themselves as integers: the
  relays only test them for truth (non-zero) and pass them on. An object is the list of its
  own properties, each name once, looked up by name.
\<close>

datatype json =
    JNull
  | JBool bool
  | JNum int
  | JStr string
  | JArr "json list"
  | JObj "(string \<times> json) list"

datatype jsval = Undefined | Val json

datatype error = SyntaxError | TypeError | RequestError

text \<open>Truthiness, as \<^verbatim>\<open>if (x)\<close>, \<^verbatim>\<open>x && y\<close> and \<^verbatim>\<open>x || y\<close> test it.\<close>

fun truthy :: "jsval \<Rightarrow> bool" where
  "truthy Undefined = False"
| "truthy (Val JNull) = False"
| "truthy (Val (JBool b)) = b"
| "truthy (Val (JNum n)) = (n \<noteq> 0)"
| "truthy (Val (JStr s)) = (s \<noteq> [])"
| "truthy (Val (JArr xs)) = True"
| "truthy (Val (JObj kvs)) = True"

text \<open>\<^verbatim>\<open>a || b\<close>\<close>

definition or_else :: "jsval \<Rightarrow> jsval \<Rightarrow> jsval" where
  "or_else a b = (if truthy a then a else b)"

fun nullish :: "jsval \<Rightarrow> bool" where
  "nullish Undefined = True"
| "nullish (Val JNull) = True"
| "nullish (Val v) = False"

text \<open>
  \<^verbatim>\<open>a?.k\<close>: \<^verbatim>\<open>undefined\<close> when \<open>a\<close> is \<^verbatim>\<open>null\<close> or \<^verbatim>\<open>undefined\<close>, the own property
  \<open>k\<close> of an object, and \<^verbatim>\<open>undefined\<close> on a string, number, boolean or array (none of
  the names the relays read is a property of those, or of \<^verbatim>\<open>Object.prototype\<close>).
\<close>

fun get :: "jsval \<Rightarrow> string \<Rightarrow> jsval" where
  "get (Val (JObj kvs)) k = (case map_of kvs k of None \<Rightarrow> Undefined | Some v \<Rightarrow> Val v)"
| "get a k = Undefined"

text \<open>\<^verbatim>\<open>a.k\<close>: a TypeError when \<open>a\<close> is \<^verbatim>\<open>null\<close> or \<^verbatim>\<open>undefined\<close>.\<close>

definition dot :: "jsval \<Rightarrow> string \<Rightarrow> error + jsval" where
  "dot a k = (if nullish a then Inl TypeError else Inr (get a k))"

text \<open>
  A template literal \<^verbatim>\<open>`... ${x} ...`\<close> converts \<open>x\<close> to a string. For a parsed object
  that has an own property \<^verbatim>\<open>toString\<close> (never a function, since it came from JSON) the
  conversion raises a TypeError; an array converts its elements in turn.
\<close>

fun template_throws :: "json \<Rightarrow> bool"
  and template_throws_elems :: "json list \<Rightarrow> bool" where
  "template_throws (JObj kvs) = (map_of kvs ''toString'' \<noteq> None)"
| "template_throws (JArr xs) = template_throws_elems xs"
| "template_throws JNull = False"
| "template_throws (JBool b) = False"
| "template_throws (JNum n) = False"
| "template_throws (JStr s) = False"
| "template_throws_elems [] = False"
| "template_throws_elems (x # xs) = (template_throws x \<or> template_throws_elems xs)"

fun unprintable :: "jsval \<Rightarrow> bool" where
  "unprintable Undefined = False"
| "unprintable (Val v) = template_throws v"

text \<open>
  \<^verbatim>\<open>JSON.stringify\<close> of an object literal whose property values are JavaScript values:
  a property whose value is \<^verbatim>\<open>undefined\<close> is left out. A frame that is sent is
  represented by the JSON value its text denotes.
\<close>

fun own_fields :: "(string \<times> jsval) list \<Rightarrow> (string \<times> json) list" where
  "own_fields [] = []"
| "own_fields ((k, Undefined) # r) = own_fields r"
| "own_fields ((k, Val v) # r) = (k, v) # own_fields r"

definition JSON_stringify :: "(string \<times> jsval) list \<Rightarrow> json" where
  "JSON_stringify fields = JObj (own_fields fields)"

section \<open>The session\<close>

text \<open>\<^verbatim>\<open>readyState\<close> of a WebSocket of the \<^verbatim>\<open>ws\<close> package.\<close>

datatype ready_state = CONNECTING | OPEN | CLOSING | CLOSED

text \<open>
  \<^verbatim>\<open>close()\<close> starts the closing handshake of an open socket, aborts one that is
  still connecting, and does nothing on one that is closing or closed.
\<close>

fun ws_close :: "ready_state \<Rightarrow> ready_state" where
  "ws_close CONNECTING = CLOSING"
| "ws_close OPEN = CLOSING"
| "ws_close CLOSING = CLOSING"
| "ws_close CLOSED = CLOSED"

text \<open>
  What the relay calls on the agent socket: \<^verbatim>\<open>send(text)\<close>, and \<^verbatim>\<open>close()\<close> with the
  \<^verbatim>\<open>readyState\<close> the socket had at the call. A call of \<^verbatim>\<open>send\<close> is recorded with the
  JSON value of its text; whether the socket then transmits it is the socket's business.
\<close>

datatype agent_call = Send json | Close ready_state

datatype level = LOG | INFO | WARN | ERROR

datatype log_line =
    Line level string "jsval list"
  | Failure string error

text \<open>
  The variables the handler of \<^verbatim>\<open>/outbound-media-stream\<close> closes over
  (\<open>streamSid\<close>, \<open>callSid\<close>, \<open>elevenLabsWs\<close>, \<open>customParameters\<close>), whether
  \<^verbatim>\<open>setupElevenLabs()\<close> is still waiting for the signed URL, and what the session has
  done so far: the calls on the agent socket, the frames passed to \<^verbatim>\<open>ws.send\<close> of the
  telephony socket, and the console. \<open>elevenLabsWs = None\<close> is the variable holding
  \<^verbatim>\<open>null\<close>.
\<close>

record session =
  streamSid :: jsval
  callSid :: jsval
  elevenLabsWs :: "ready_state option"
  customParameters :: jsval
  setup_pending :: bool
  agent_out :: "agent_call list"
  twilio_out :: "json list"
  console :: "log_line list"

datatype impl = Outbound_js | Part_000

definition say :: "log_line \<Rightarrow> session \<Rightarrow> session" where
  "say l s = s\<lparr>console := console s @ [l]\<rparr>"

definition agent_send :: "json \<Rightarrow> session \<Rightarrow> session" where
  "agent_send j s = s\<lparr>agent_out := agent_out s @ [Send j]\<rparr>"

definition twilio_send :: "json \<Rightarrow> session \<Rightarrow> session" where
  "twilio_send j s = s\<lparr>twilio_out := twilio_out s @ [j]\<rparr>"

text \<open>\<^verbatim>\<open>elevenLabsWs.close()\<close> on a socket that exists.\<close>

definition agent_close :: "ready_state \<Rightarrow> session \<Rightarrow> session" where
  "agent_close rs s =
     s\<lparr>elevenLabsWs := Some (ws_close rs), agent_out := agent_out s @ [Close rs]\<rparr>"

text \<open>The session when the telephony stream has just connected.\<close>

definition init :: session where
  "init =
     \<lparr>streamSid = Val JNull, callSid = Val JNull, elevenLabsWs = None,
      customParameters = Val JNull, setup_pending = True,
      agent_out = [], twilio_out = [],
      console = [Line INFO ''[Server] Twilio connected to outbound media stream'' []]\<rparr>"

section \<open>The agent socket's handlers\<close>

definition default_prompt :: "impl \<Rightarrow> string" where
  "default_prompt i =
     (case i of
        Outbound_js \<Rightarrow> ''You are Gary from the phone store.''
      | Part_000 \<Rightarrow> ''Hello! How can I help?'')"

definition default_first_message :: "impl \<Rightarrow> string" where
  "default_first_message i =
     (case i of
        Outbound_js \<Rightarrow> ''Hey there! How can I help you today?''
      | Part_000 \<Rightarrow> ''Hi there!'')"

definition initialConfig :: "impl \<Rightarrow> jsval \<Rightarrow> json" where
  "initialConfig i cp =
     JSON_stringify
       [(''type'', Val (JStr ''conversation_initiation_client_data'')),
        (''conversation_config_override'', Val (JSON_stringify
           [(''agent'', Val (JSON_stringify
               [(''prompt'', Val (JSON_stringify
                   [(''prompt'', or_else (get cp ''prompt'') (Val (JStr (default_prompt i))))])),
                (''first_message'',
                   or_else (get cp ''first_message'') (Val (JStr (default_first_message i))))]))]))]"

text \<open>\<^verbatim>\<open>elevenLabsWs.on("open", ...)\<close>\<close>

definition on_open :: "impl \<Rightarrow> session \<Rightarrow> session" where
  "on_open i s =
     (let cfg = initialConfig i (customParameters s) in
      case i of
        Outbound_js \<Rightarrow>
          agent_send cfg
            (say (Line LOG ''[ElevenLabs] Sending initial config:'' [Val cfg])
              (say (Line LOG ''[ElevenLabs] Connected to Conversational AI'' []) s))
      | Part_000 \<Rightarrow>
          agent_send cfg
            (say (Line LOG ''[ElevenLabs] Sending initial config with prompt:''
                    [get (get (get (get (Val cfg) ''conversation_config_override'') ''agent'')
                       ''prompt'') ''prompt''])
              (say (Line LOG ''[ElevenLabs] Connected to Conversational AI'' []) s)))"

text \<open>A \<^verbatim>\<open>console.log\<close> of a template literal with one interpolated value.\<close>

definition say_template :: "string \<Rightarrow> string \<Rightarrow> jsval \<Rightarrow> session \<Rightarrow> session" where
  "say_template catch_tag line v s =
     (if unprintable v then say (Failure catch_tag TypeError) s
      else say (Line LOG line [v]) s)"

text \<open>
  The cases of the \<^verbatim>\<open>switch (message.type)\<close> in \<^verbatim>\<open>elevenLabsWs.on("message", ...)\<close>.
  \<open>message\<close> is not \<^verbatim>\<open>null\<close> in any of them: reading \<^verbatim>\<open>message.type\<close> has succeeded.
\<close>

text \<open>\<^verbatim>\<open>case "audio"\<close> of \<^verbatim>\<open>src/outbound.js\<close>, lines 165 to 179.\<close>

definition audio_case_outbound :: "jsval \<Rightarrow> session \<Rightarrow> session" where
  "audio_case_outbound message s =
     (if truthy (streamSid s) then
        say (Line LOG ''[Twilio] Sending AI-generated speech to call.'' [])
          (twilio_send
             (JSON_stringify
                [(''event'', Val (JStr ''media'')),
                 (''streamSid'', streamSid s),
                 (''media'', Val (JSON_stringify
                    [(''payload'',
                      or_else (get (get message ''audio'') ''chunk'')
                        (get (get message ''audio_event'') ''audio_base_64''))]))])
             s)
      else say (Line LOG ''[ElevenLabs] Received audio but no StreamSid.'' []) s)"

text \<open>\<^verbatim>\<open>case "audio"\<close> of \<^verbatim>\<open>src/unnamed/part_000\<close>, lines 168 to 181.\<close>

definition audio_case_part000 :: "jsval \<Rightarrow> session \<Rightarrow> session" where
  "audio_case_part000 message s =
     (if truthy (streamSid s) \<and> truthy (get (get message ''audio'') ''chunk'') then
        twilio_send
          (JSON_stringify
             [(''event'', Val (JStr ''media'')),
              (''streamSid'', streamSid s),
              (''media'', Val (JSON_stringify
                 [(''payload'', get (get message ''audio'') ''chunk'')]))])
          s
      else say (Line WARN ''[ElevenLabs] Received audio but no StreamSid.'' []) s)"

text \<open>\<^verbatim>\<open>case "ping"\<close> of \<^verbatim>\<open>src/outbound.js\<close>, lines 181 to 187.\<close>

definition ping_case_outbound :: "jsval \<Rightarrow> session \<Rightarrow> session" where
  "ping_case_outbound message s =
     (if truthy (get (get message ''ping_event'') ''event_id'') then
        agent_send
          (JSON_stringify
             [(''type'', Val (JStr ''pong'')),
              (''event_id'', get (get message ''ping_event'') ''event_id'')])
          s
      else s)"

text \<open>
  The cases that only log: \<^verbatim>\<open>agent_response\<close>, \<^verbatim>\<open>user_transcript\<close> and
  \<^verbatim>\<open>default\<close>, each a template literal with one interpolated value.
\<close>

definition agent_response_case :: "jsval \<Rightarrow> session \<Rightarrow> session" where
  "agent_response_case message s =
     say_template ''[ElevenLabs] Error processing message:'' ''[Twilio] AI Response:''
       (get (get message ''agent_response_event'') ''agent_response'') s"

definition user_transcript_case :: "string \<Rightarrow> jsval \<Rightarrow> session \<Rightarrow> session" where
  "user_transcript_case line message s =
     say_template ''[ElevenLabs] Error processing message:'' line
       (get (get message ''user_transcription_event'') ''user_transcript'') s"

definition default_case :: "jsval \<Rightarrow> session \<Rightarrow> session" where
  "default_case t s =
     say_template ''[ElevenLabs] Error processing message:''
       ''[ElevenLabs] Unhandled message type:'' t s"

text \<open>\<^verbatim>\<open>elevenLabsWs.on("message", ...)\<close> of \<^verbatim>\<open>src/outbound.js\<close>, lines 160 to 203.\<close>

definition on_agent_message_outbound :: "session \<Rightarrow> json option \<Rightarrow> session" where
  "on_agent_message_outbound s data =
     (case data of
        None \<Rightarrow> say (Failure ''[ElevenLabs] Error processing message:'' SyntaxError) s
      | Some parsed \<Rightarrow>
          (let message = Val parsed in
           case dot message ''type'' of
             Inl e \<Rightarrow> say (Failure ''[ElevenLabs] Error processing message:'' e) s
           | Inr t \<Rightarrow>
               if t = Val (JStr ''audio'') then audio_case_outbound message s
               else if t = Val (JStr ''ping'') then ping_case_outbound message s
               else if t = Val (JStr ''agent_response'') then agent_response_case message s
               else if t = Val (JStr ''user_transcript'')
               then user_transcript_case ''[Twilio] User said:'' message s
               else default_case t s))"

text \<open>
  \<^verbatim>\<open>elevenLabsWs.on("message", ...)\<close> of \<^verbatim>\<open>src/unnamed/part_000\<close>, lines 159 to 197:
  it has a case for \<^verbatim>\<open>conversation_initiation_metadata\<close> and none for \<^verbatim>\<open>ping\<close>.
\<close>

definition on_agent_message_part000 :: "session \<Rightarrow> json option \<Rightarrow> session" where
  "on_agent_message_part000 s data =
     (case data of
        None \<Rightarrow> say (Failure ''[ElevenLabs] Error processing message:'' SyntaxError) s
      | Some parsed \<Rightarrow>
          (let message = Val parsed in
           case dot message ''type'' of
             Inl e \<Rightarrow> say (Failure ''[ElevenLabs] Error processing message:'' e) s
           | Inr t \<Rightarrow>
               if t = Val (JStr ''conversation_initiation_metadata'')
               then say (Line LOG ''[ElevenLabs] Received initiation metadata'' []) s
               else if t = Val (JStr ''audio'') then audio_case_part000 message s
               else if t = Val (JStr ''agent_response'') then agent_response_case message s
               else if t = Val (JStr ''user_transcript'')
               then user_transcript_case ''[User] Spoke:'' message s
               else default_case t s))"

definition on_agent_message :: "impl \<Rightarrow> session \<Rightarrow> json option \<Rightarrow> session" where
  "on_agent_message i =
     (case i of
        Outbound_js \<Rightarrow> on_agent_message_outbound
      | Part_000 \<Rightarrow> on_agent_message_part000)"

text \<open>\<^verbatim>\<open>elevenLabsWs.on("close", ...)\<close>\<close>

definition on_agent_close :: "impl \<Rightarrow> session \<Rightarrow> session" where
  "on_agent_close i s = say (Line LOG ''[ElevenLabs] Disconnected'' []) s"

section \<open>The telephony socket's handler\<close>

text \<open>
  The \<^verbatim>\<open>start\<close> case, the same in both files: three assignments, then a log line that
  interpolates \<open>streamSid\<close> and \<open>callSid\<close>. \<^verbatim>\<open>msg.start.streamSid\<close> raises before any
  assignment when \<^verbatim>\<open>msg.start\<close> is missing; the log line raises after all three.
\<close>

definition on_start :: "string \<Rightarrow> jsval \<Rightarrow> session \<Rightarrow> session" where
  "on_start line msg s =
     (case dot (get msg ''start'') ''streamSid'' of
        Inl e \<Rightarrow> say (Failure ''[Twilio] Error processing message:'' e) s
      | Inr sid \<Rightarrow>
          (let s' = s\<lparr>streamSid := sid,
                      callSid := get (get msg ''start'') ''callSid'',
                      customParameters := get (get msg ''start'') ''customParameters''\<rparr>
           in if unprintable (streamSid s') \<or> unprintable (callSid s')
              then say (Failure ''[Twilio] Error processing message:'' TypeError) s'
              else say (Line LOG line [streamSid s', callSid s']) s'))"

text \<open>The \<^verbatim>\<open>media\<close> case, the same in both files.\<close>

definition on_media :: "jsval \<Rightarrow> session \<Rightarrow> session" where
  "on_media msg s =
     (if elevenLabsWs s = Some OPEN then
        (case dot (get msg ''media'') ''payload'' of
           Inl e \<Rightarrow> say (Failure ''[Twilio] Error processing message:'' e) s
         | Inr payload \<Rightarrow> agent_send (JSON_stringify [(''user_audio_chunk'', payload)]) s)
      else s)"

text \<open>
  The \<^verbatim>\<open>stop\<close> case of \<^verbatim>\<open>src/outbound.js\<close>: the log line, then
  \<^verbatim>\<open>elevenLabsWs?.close()\<close>.
\<close>

definition on_stop_outbound :: "session \<Rightarrow> session" where
  "on_stop_outbound s =
     (if unprintable (streamSid s)
      then say (Failure ''[Twilio] Error processing message:'' TypeError) s
      else
        (let s' = say (Line LOG ''[Twilio] Stream ended'' [streamSid s]) s in
         case elevenLabsWs s' of
           None \<Rightarrow> s'
         | Some rs \<Rightarrow> agent_close rs s'))"

text \<open>
  The \<^verbatim>\<open>stop\<close> case of \<^verbatim>\<open>src/unnamed/part_000\<close>: the log line, then \<^verbatim>\<open>close()\<close> only
  if the socket is open.
\<close>

definition on_stop_part000 :: "session \<Rightarrow> session" where
  "on_stop_part000 s =
     (if unprintable (streamSid s)
      then say (Failure ''[Twilio] Error processing message:'' TypeError) s
      else
        (let s' = say (Line LOG ''[Twilio] Stream ended'' [streamSid s]) s in
         if elevenLabsWs s' = Some OPEN then agent_close OPEN s' else s'))"

text \<open>\<^verbatim>\<open>ws.on("message", ...)\<close> of \<^verbatim>\<open>src/outbound.js\<close>, lines 215 to 242.\<close>

definition on_twilio_message_outbound :: "session \<Rightarrow> json option \<Rightarrow> session" where
  "on_twilio_message_outbound s data =
     (case data of
        None \<Rightarrow> say (Failure ''[Twilio] Error processing message:'' SyntaxError) s
      | Some parsed \<Rightarrow>
          (let msg = Val parsed in
           case dot msg ''event'' of
             Inl e \<Rightarrow> say (Failure ''[Twilio] Error processing message:'' e) s
           | Inr ev \<Rightarrow>
               if ev = Val (JStr ''start'') then on_start ''[Twilio] Stream started'' msg s
               else if ev = Val (JStr ''media'') then on_media msg s
               else if ev = Val (JStr ''stop'') then on_stop_outbound s
               else s))"

text \<open>
  \<^verbatim>\<open>ws.on("message", ...)\<close> of \<^verbatim>\<open>src/unnamed/part_000\<close>, lines 214 to 245: every event
  but \<^verbatim>\<open>media\<close> is logged first, with its name interpolated.
\<close>

definition on_twilio_message_part000 :: "session \<Rightarrow> json option \<Rightarrow> session" where
  "on_twilio_message_part000 s data =
     (case data of
        None \<Rightarrow> say (Failure ''[Twilio] Error processing message:'' SyntaxError) s
      | Some parsed \<Rightarrow>
          (let msg = Val parsed in
           case dot msg ''event'' of
             Inl e \<Rightarrow> say (Failure ''[Twilio] Error processing message:'' e) s
           | Inr ev \<Rightarrow>
               if ev = Val (JStr ''media'') then on_media msg s
               else if unprintable ev
               then say (Failure ''[Twilio] Error processing message:'' TypeError) s
               else
                 (let s' = say (Line LOG ''[Twilio] Received event:'' [ev]) s in
                  if ev = Val (JStr ''start'') then on_start ''[Twilio] Stream started'' msg s'
                  else if ev = Val (JStr ''stop'') then on_stop_part000 s'
                  else s')))"

definition on_twilio_message :: "impl \<Rightarrow> session \<Rightarrow> json option \<Rightarrow> session" where
  "on_twilio_message i =
     (case i of
        Outbound_js \<Rightarrow> on_twilio_message_outbound
      | Part_000 \<Rightarrow> on_twilio_message_part000)"

text \<open>
  \<^verbatim>\<open>elevenLabsWs.on("error", ...)\<close>, lines 199 to 201 of \<^verbatim>\<open>src/unnamed/part_000\<close>: the
  error is logged. \<^verbatim>\<open>src/outbound.js\<close> registers no \<^verbatim>\<open>error\<close> listener on the agent
  socket.
\<close>

definition has_error_listener :: "impl \<Rightarrow> bool" where
  "has_error_listener i = (case i of Outbound_js \<Rightarrow> False | Part_000 \<Rightarrow> True)"

definition on_agent_error :: "session \<Rightarrow> session" where
  "on_agent_error s = say (Line ERROR ''[ElevenLabs] WebSocket error:'' []) s"

section \<open>Events and runs\<close>

text \<open>
  What can happen to a session. \<open>SignedUrlFailed\<close>: \<^verbatim>\<open>getSignedUrl()\<close> raised (the
  request failed or its status was not a success), which it logs and raises again, and
  \<^verbatim>\<open>setupElevenLabs\<close> catches and logs. \<open>SocketRefused\<close>: the signed URL arrived and
  the WebSocket constructor raised, which \<^verbatim>\<open>setupElevenLabs\<close> catches and logs.
  \<open>SocketCreated\<close>: the signed URL arrived and \<open>elevenLabsWs\<close> was assigned a connecting
  socket. A message event carries what \<^verbatim>\<open>JSON.parse\<close> makes of the data: \<open>None\<close> when it
  raises a SyntaxError. \<open>AgentError\<close>: the agent socket emits \<^verbatim>\<open>error\<close> (a failed
  handshake, a transport or protocol error). The telephony socket has an \<^verbatim>\<open>error\<close>
  listener (\<^verbatim>\<open>console.error\<close>) and no \<^verbatim>\<open>close\<close> listener.
\<close>

datatype event =
    SignedUrlFailed error
  | SocketRefused error
  | SocketCreated
  | AgentOpen
  | AgentMessage "json option"
  | AgentError
  | AgentClose
  | TwilioMessage "json option"
  | TwilioError
  | TwilioClose

text \<open>
  One event. The agent socket's events follow the \<^verbatim>\<open>ws\<close> package: \<^verbatim>\<open>open\<close> is emitted
  once, by a connecting socket, which is open from then on; messages are emitted by a socket
  that is open or closing; \<^verbatim>\<open>close\<close> by a socket that is not yet closed. A socket that
  emits \<^verbatim>\<open>error\<close> is closing when it does, and emits \<^verbatim>\<open>close\<close> next, closed. An event
  that cannot happen in the state leaves it as it is.
\<close>

fun step :: "impl \<Rightarrow> session \<Rightarrow> event \<Rightarrow> session" where
  "step i s (SignedUrlFailed e) =
     (if setup_pending s
      then say (Failure ''[ElevenLabs] Setup error:'' e)
             (say (Failure ''Error getting signed URL:'' e) (s\<lparr>setup_pending := False\<rparr>))
      else s)"
| "step i s (SocketRefused e) =
     (if setup_pending s
      then say (Failure ''[ElevenLabs] Setup error:'' e) (s\<lparr>setup_pending := False\<rparr>)
      else s)"
| "step i s SocketCreated =
     (if setup_pending s
      then s\<lparr>elevenLabsWs := Some CONNECTING, setup_pending := False\<rparr>
      else s)"
| "step i s AgentOpen =
     (if elevenLabsWs s = Some CONNECTING
      then on_open i (s\<lparr>elevenLabsWs := Some OPEN\<rparr>)
      else s)"
| "step i s (AgentMessage data) =
     (if elevenLabsWs s = Some OPEN \<or> elevenLabsWs s = Some CLOSING
      then on_agent_message i s data
      else s)"
| "step i s AgentError =
     (case elevenLabsWs s of
        None \<Rightarrow> s
      | Some CLOSED \<Rightarrow> s
      | Some rs \<Rightarrow>
          if has_error_listener i
          then on_agent_close i
                 ((on_agent_error (s\<lparr>elevenLabsWs := Some CLOSING\<rparr>))
                    \<lparr>elevenLabsWs := Some CLOSED\<rparr>)
          else s\<lparr>elevenLabsWs := Some CLOSING\<rparr>)"
| "step i s AgentClose =
     (case elevenLabsWs s of
        None \<Rightarrow> s
      | Some CLOSED \<Rightarrow> s
      | Some rs \<Rightarrow> on_agent_close i (s\<lparr>elevenLabsWs := Some CLOSED\<rparr>))"
| "step i s (TwilioMessage data) = on_twilio_message i s data"
| "step i s TwilioError = say (Line ERROR ''error'' []) s"
| "step i s TwilioClose = s"

text \<open>
  An \<^verbatim>\<open>error\<close> event that no listener takes is an uncaught exception: the process
  exits. That is the fate of \<^verbatim>\<open>src/outbound.js\<close> when its agent socket emits \<^verbatim>\<open>error\<close>,
  and also when its \<^verbatim>\<open>stop\<close> case calls \<^verbatim>\<open>close()\<close> on a socket that is still
  connecting: the call aborts the handshake, and the socket emits \<^verbatim>\<open>error\<close> on the next
  tick. \<open>fatal i s e\<close>: handling the event \<open>e\<close> in the state \<open>s\<close> ends the process.
\<close>

fun fatal :: "impl \<Rightarrow> session \<Rightarrow> event \<Rightarrow> bool" where
  "fatal i s AgentError =
     (\<not> has_error_listener i \<and> elevenLabsWs s \<noteq> None \<and> elevenLabsWs s \<noteq> Some CLOSED)"
| "fatal i s (TwilioMessage data) =
     (\<not> has_error_listener i \<and> elevenLabsWs s = Some CONNECTING \<and>
      elevenLabsWs (on_twilio_message i s data) = Some CLOSING)"
| "fatal i s e = False"

text \<open>
  A run: the events are handled in their order of arrival, up to and including the first
  that is fatal. The result is the session as the last handled event left it.
\<close>

fun run :: "impl \<Rightarrow> session \<Rightarrow> event list \<Rightarrow> session" where
  "run i s [] = s"
| "run i s (e # es) = (if fatal i s e then step i s e else run i (step i s e) es)"

text \<open>The process exits within the events.\<close>

fun halted :: "impl \<Rightarrow> session \<Rightarrow> event list \<Rightarrow> bool" where
  "halted i s [] = False"
| "halted i s (e # es) = (fatal i s e \<or> halted i (step i s e) es)"

section \<open>Notions the properties are stated with\<close>

text \<open>
  The frames the relay sends, written out: the initialization frame with its two
  fields, the telephony \<^verbatim>\<open>media\<close> frame, the user-audio frame and the \<^verbatim>\<open>pong\<close>.
\<close>

definition config_frame :: "json \<Rightarrow> json \<Rightarrow> json" where
  "config_frame prompt first_message =
     JObj [(''type'', JStr ''conversation_initiation_client_data''),
           (''conversation_config_override'',
              JObj [(''agent'',
                 JObj [(''prompt'', JObj [(''prompt'', prompt)]),
                       (''first_message'', first_message)])])]"

definition media_frame :: "json \<Rightarrow> json \<Rightarrow> json" where
  "media_frame sid payload =
     JObj [(''event'', JStr ''media''), (''streamSid'', sid),
           (''media'', JObj [(''payload'', payload)])]"

definition user_audio_frame :: "json \<Rightarrow> json" where
  "user_audio_frame payload = JObj [(''user_audio_chunk'', payload)]"

definition pong_frame :: "json \<Rightarrow> json" where
  "pong_frame event_id = JObj [(''type'', JStr ''pong''), (''event_id'', event_id)]"

text \<open>The JSON value of a JavaScript value that is one.\<close>

fun the_json :: "jsval \<Rightarrow> json" where
  "the_json (Val v) = v"
| "the_json Undefined = JNull"

text \<open>A value if it is truthy, a default string otherwise.\<close>

definition truthy_or :: "jsval \<Rightarrow> string \<Rightarrow> json" where
  "truthy_or v d = (if truthy v then the_json v else JStr d)"

text \<open>Telephony events by their \<^verbatim>\<open>event\<close> field.\<close>

definition event_is :: "string \<Rightarrow> json \<Rightarrow> bool" where
  "event_is name msg = (get (Val msg) ''event'' = Val (JStr name))"

fun is_media :: "event \<Rightarrow> bool" where
  "is_media (TwilioMessage (Some msg)) = event_is ''media'' msg"
| "is_media e = False"

text \<open>
  The \<open>customParameters\<close> a \<^verbatim>\<open>start\<close> event supplies (it has a \<^verbatim>\<open>start\<close> object), and
  those of the last \<^verbatim>\<open>start\<close> event among the events received so far, if there was one.
\<close>

fun start_params :: "event \<Rightarrow> jsval option" where
  "start_params (TwilioMessage (Some msg)) =
     (if event_is ''start'' msg \<and> \<not> nullish (get (Val msg) ''start'')
      then Some (get (get (Val msg) ''start'') ''customParameters'')
      else None)"
| "start_params e = None"

fun received_start :: "event list \<Rightarrow> jsval option" where
  "received_start [] = None"
| "received_start (e # es) =
     (case received_start es of Some cp \<Rightarrow> Some cp | None \<Rightarrow> start_params e)"

text \<open>The number of calls of \<^verbatim>\<open>close()\<close> on the agent socket so far.\<close>

fun is_close :: "agent_call \<Rightarrow> bool" where
  "is_close (Close rs) = True"
| "is_close (Send j) = False"

definition close_calls :: "session \<Rightarrow> nat" where
  "close_calls s = length (filter is_close (agent_out s))"

text \<open>
  Two sessions agree when they differ at most in what was written to the console: the
  variables, the socket's state and everything sent are the same.
\<close>

definition agree :: "session \<Rightarrow> session \<Rightarrow> bool" where
  "agree s s' =
     (streamSid s = streamSid s' \<and> callSid s = callSid s' \<and>
      elevenLabsWs s = elevenLabsWs s' \<and> customParameters s = customParameters s' \<and>
      setup_pending s = setup_pending s' \<and> agent_out s = agent_out s' \<and>
      twilio_out s = twilio_out s')"

text \<open>
  The audio payload of an agent message: the primary field \<^verbatim>\<open>audio.chunk\<close> if it is
  truthy, the fallback field \<^verbatim>\<open>audio_event.audio_base_64\<close> otherwise.
\<close>

definition audio_payload :: "json \<Rightarrow> jsval" where
  "audio_payload m =
     (if truthy (get (get (Val m) ''audio'') ''chunk'')
      then get (get (Val m) ''audio'') ''chunk''
      else get (get (Val m) ''audio_event'') ''audio_base_64'')"

definition type_is :: "string \<Rightarrow> json \<Rightarrow> bool" where
  "type_is name m = (get (Val m) ''type'' = Val (JStr name))"

text \<open>
  The events on which the two files do the same, in a given state: an \<^verbatim>\<open>open\<close> whose
  initialization frame takes both fields from \<open>customParameters\<close> (the fallback strings
  differ), an agent message that is not a \<^verbatim>\<open>ping\<close> with a truthy identifier (only
  \<^verbatim>\<open>src/outbound.js\<close> answers it) and not an \<^verbatim>\<open>audio\<close> without a truthy
  \<^verbatim>\<open>audio.chunk\<close> while \<open>streamSid\<close> is truthy (only \<^verbatim>\<open>src/outbound.js\<close> relays it),
  a \<^verbatim>\<open>stop\<close> while the agent socket is open or absent (only \<^verbatim>\<open>src/outbound.js\<close> calls
  \<^verbatim>\<open>close()\<close> on a socket that is not open), an \<^verbatim>\<open>error\<close> of the agent socket that
  cannot be emitted (only \<^verbatim>\<open>src/unnamed/part_000\<close> survives one), and every other event.
\<close>

fun coincide :: "session \<Rightarrow> event \<Rightarrow> bool" where
  "coincide s AgentOpen =
     (if elevenLabsWs s = Some CONNECTING
      then truthy (get (customParameters s) ''prompt'') \<and>
           truthy (get (customParameters s) ''first_message'')
      else True)"
| "coincide s (AgentMessage (Some m)) =
     (if type_is ''ping'' m then \<not> truthy (get (get (Val m) ''ping_event'') ''event_id'')
      else if type_is ''audio'' m \<and> truthy (streamSid s)
      then truthy (get (get (Val m) ''audio'') ''chunk'')
      else True)"
| "coincide s (TwilioMessage (Some msg)) =
     (if event_is ''stop'' msg
      then elevenLabsWs s = None \<or> elevenLabsWs s = Some OPEN
      else True)"
| "coincide s AgentError = (elevenLabsWs s = None \<or> elevenLabsWs s = Some CLOSED)"
| "coincide s e = True"

fun coincide_run :: "session \<Rightarrow> event list \<Rightarrow> bool" where
  "coincide_run s [] = True"
| "coincide_run s (e # es) = (coincide s e \<and> coincide_run (step Outbound_js s e) es)"

text \<open>
  The agent socket has not been open yet: the variable is \<^verbatim>\<open>null\<close> or the socket is
  connecting. While that is so, and from the beginning of a session, nothing has been called
  on it (\<open>quiet\<close>).
\<close>

definition unopened :: "session \<Rightarrow> bool" where
  "unopened s = (elevenLabsWs s = None \<or> elevenLabsWs s = Some CONNECTING)"

definition quiet :: "session \<Rightarrow> bool" where
  "quiet s = ((setup_pending s \<longrightarrow> elevenLabsWs s = None) \<and>
              (unopened s \<longrightarrow> agent_out s = []))"

text \<open>
  \<^verbatim>\<open>close()\<close> has been called at most once, and not at all while the socket is absent,
  connecting or open.
\<close>

definition closed_once :: "session \<Rightarrow> bool" where
  "closed_once s =
     ((setup_pending s \<longrightarrow> elevenLabsWs s = None) \<and>
      (elevenLabsWs s = None \<or> elevenLabsWs s = Some CONNECTING \<or> elevenLabsWs s = Some OPEN
         \<longrightarrow> close_calls s = 0) \<and>
      close_calls s \<le> 1)"

section \<open>Basic facts\<close>

lemma has_error_listener_simps [simp]:
  "has_error_listener Outbound_js = False" "has_error_listener Part_000 = True"
  by (simp_all add: has_error_listener_def)

lemma not_fatal_part000 [simp]: "\<not> fatal Part_000 s e"
  by (cases e) simp_all

lemma fatal_closing: "fatal i s e \<Longrightarrow> elevenLabsWs (step i s e) = Some CLOSING"
  by (cases e) (auto split: option.splits ready_state.splits)

lemma run_halted_append:
  "run i s (es @ es') = (if halted i s es then run i s es else run i (run i s es) es')"
  by (induction es arbitrary: s) simp_all

lemma halted_closing: "halted i s es \<Longrightarrow> elevenLabsWs (run i s es) = Some CLOSING"
proof (induction es arbitrary: s)
  case Nil
  then show ?case by simp
next
  case (Cons e es)
  show ?case
  proof (cases "fatal i s e")
    case True
    then show ?thesis by (simp add: fatal_closing del: step.simps fatal.simps)
  next
    case False
    with Cons show ?thesis by (simp del: step.simps fatal.simps)
  qed
qed

lemmas effect_defs = say_def agent_send_def twilio_send_def agent_close_def

lemma ws_close_not_live [simp]: "ws_close rs \<noteq> CONNECTING" "ws_close rs \<noteq> OPEN"
  by (cases rs; simp)+

lemma say_keeps [simp]:
  "streamSid (say l s) = streamSid s" "callSid (say l s) = callSid s"
  "elevenLabsWs (say l s) = elevenLabsWs s" "customParameters (say l s) = customParameters s"
  "setup_pending (say l s) = setup_pending s" "agent_out (say l s) = agent_out s"
  "twilio_out (say l s) = twilio_out s"
  by (simp_all add: say_def)

lemma say_template_keeps [simp]:
  "streamSid (say_template c l v s) = streamSid s" "callSid (say_template c l v s) = callSid s"
  "elevenLabsWs (say_template c l v s) = elevenLabsWs s"
  "customParameters (say_template c l v s) = customParameters s"
  "setup_pending (say_template c l v s) = setup_pending s"
  "agent_out (say_template c l v s) = agent_out s"
  "twilio_out (say_template c l v s) = twilio_out s"
  by (simp_all add: say_template_def)

lemma agent_send_keeps [simp]:
  "streamSid (agent_send j s) = streamSid s" "callSid (agent_send j s) = callSid s"
  "elevenLabsWs (agent_send j s) = elevenLabsWs s"
  "customParameters (agent_send j s) = customParameters s"
  "setup_pending (agent_send j s) = setup_pending s"
  "agent_out (agent_send j s) = agent_out s @ [Send j]"
  "twilio_out (agent_send j s) = twilio_out s"
  by (simp_all add: agent_send_def)

lemma twilio_send_keeps [simp]:
  "streamSid (twilio_send j s) = streamSid s" "callSid (twilio_send j s) = callSid s"
  "elevenLabsWs (twilio_send j s) = elevenLabsWs s"
  "customParameters (twilio_send j s) = customParameters s"
  "setup_pending (twilio_send j s) = setup_pending s"
  "agent_out (twilio_send j s) = agent_out s"
  "twilio_out (twilio_send j s) = twilio_out s @ [j]"
  by (simp_all add: twilio_send_def)

lemma agent_close_keeps [simp]:
  "streamSid (agent_close rs s) = streamSid s" "callSid (agent_close rs s) = callSid s"
  "elevenLabsWs (agent_close rs s) = Some (ws_close rs)"
  "customParameters (agent_close rs s) = customParameters s"
  "setup_pending (agent_close rs s) = setup_pending s"
  "agent_out (agent_close rs s) = agent_out s @ [Close rs]"
  "twilio_out (agent_close rs s) = twilio_out s"
  by (simp_all add: agent_close_def)

lemma agree_refl [simp]: "agree s s"
  by (simp add: agree_def)

lemma agree_sym: "agree s s' \<Longrightarrow> agree s' s"
  by (simp add: agree_def)

lemma agree_trans: "agree s s' \<Longrightarrow> agree s' s'' \<Longrightarrow> agree s s''"
  by (simp add: agree_def)

lemma agree_say [simp]: "agree (say l s) s' = agree s s'" "agree s (say l s') = agree s s'"
  by (simp_all add: agree_def)

lemma agree_say_template [simp]:
  "agree (say_template c l v s) s' = agree s s'" "agree s (say_template c l v s') = agree s s'"
  by (simp_all add: agree_def)

text \<open>The cases of the agent handler\<close>

lemma audio_case_outbound_keeps [simp]:
  "streamSid (audio_case_outbound m s) = streamSid s"
  "callSid (audio_case_outbound m s) = callSid s"
  "elevenLabsWs (audio_case_outbound m s) = elevenLabsWs s"
  "customParameters (audio_case_outbound m s) = customParameters s"
  "setup_pending (audio_case_outbound m s) = setup_pending s"
  "agent_out (audio_case_outbound m s) = agent_out s"
  by (simp_all add: audio_case_outbound_def)

lemma audio_case_part000_keeps [simp]:
  "streamSid (audio_case_part000 m s) = streamSid s"
  "callSid (audio_case_part000 m s) = callSid s"
  "elevenLabsWs (audio_case_part000 m s) = elevenLabsWs s"
  "customParameters (audio_case_part000 m s) = customParameters s"
  "setup_pending (audio_case_part000 m s) = setup_pending s"
  "agent_out (audio_case_part000 m s) = agent_out s"
  by (simp_all add: audio_case_part000_def)

lemma ping_case_outbound_keeps [simp]:
  "streamSid (ping_case_outbound m s) = streamSid s"
  "callSid (ping_case_outbound m s) = callSid s"
  "elevenLabsWs (ping_case_outbound m s) = elevenLabsWs s"
  "customParameters (ping_case_outbound m s) = customParameters s"
  "setup_pending (ping_case_outbound m s) = setup_pending s"
  "twilio_out (ping_case_outbound m s) = twilio_out s"
  by (simp_all add: ping_case_outbound_def)

lemmas log_case_defs = agent_response_case_def user_transcript_case_def default_case_def

lemma on_agent_message_keeps [simp]:
  "streamSid (on_agent_message i s d) = streamSid s"
  "callSid (on_agent_message i s d) = callSid s"
  "elevenLabsWs (on_agent_message i s d) = elevenLabsWs s"
  "customParameters (on_agent_message i s d) = customParameters s"
  "setup_pending (on_agent_message i s d) = setup_pending s"
  by (cases i; cases d; simp add: on_agent_message_def on_agent_message_outbound_def
        on_agent_message_part000_def log_case_defs Let_def split: sum.splits)+

lemma agree_on_agent_message:
  "agree s s' \<Longrightarrow> agree (on_agent_message i s d) (on_agent_message i s' d)"
  by (cases i; cases d; simp add: on_agent_message_def on_agent_message_outbound_def
        on_agent_message_part000_def log_case_defs Let_def split: sum.splits)
     (simp_all add: agree_def audio_case_outbound_def audio_case_part000_def
        ping_case_outbound_def)

lemma on_open_keeps [simp]:
  "streamSid (on_open i s) = streamSid s"
  "callSid (on_open i s) = callSid s"
  "elevenLabsWs (on_open i s) = elevenLabsWs s"
  "customParameters (on_open i s) = customParameters s"
  "setup_pending (on_open i s) = setup_pending s"
  "twilio_out (on_open i s) = twilio_out s"
  "agent_out (on_open i s) = agent_out s @ [Send (initialConfig i (customParameters s))]"
  by (cases i; simp add: on_open_def Let_def)+

lemma agree_on_open: "agree s s' \<Longrightarrow> agree (on_open i s) (on_open i s')"
  by (simp add: agree_def)

text \<open>The cases of the telephony handler\<close>

lemma on_start_keeps [simp]:
  "elevenLabsWs (on_start l m s) = elevenLabsWs s"
  "setup_pending (on_start l m s) = setup_pending s"
  "agent_out (on_start l m s) = agent_out s"
  "twilio_out (on_start l m s) = twilio_out s"
  by (simp_all add: on_start_def Let_def split: sum.splits)

lemma on_media_keeps [simp]:
  "streamSid (on_media m s) = streamSid s"
  "callSid (on_media m s) = callSid s"
  "elevenLabsWs (on_media m s) = elevenLabsWs s"
  "customParameters (on_media m s) = customParameters s"
  "setup_pending (on_media m s) = setup_pending s"
  "twilio_out (on_media m s) = twilio_out s"
  by (simp_all add: on_media_def split: sum.splits)

lemma on_stop_outbound_keeps [simp]:
  "streamSid (on_stop_outbound s) = streamSid s"
  "callSid (on_stop_outbound s) = callSid s"
  "customParameters (on_stop_outbound s) = customParameters s"
  "setup_pending (on_stop_outbound s) = setup_pending s"
  "twilio_out (on_stop_outbound s) = twilio_out s"
  by (simp_all add: on_stop_outbound_def Let_def split: option.splits)

lemma on_stop_part000_keeps [simp]:
  "streamSid (on_stop_part000 s) = streamSid s"
  "callSid (on_stop_part000 s) = callSid s"
  "customParameters (on_stop_part000 s) = customParameters s"
  "setup_pending (on_stop_part000 s) = setup_pending s"
  "twilio_out (on_stop_part000 s) = twilio_out s"
  by (simp_all add: on_stop_part000_def Let_def)

lemma on_twilio_message_keeps [simp]:
  "setup_pending (on_twilio_message i s d) = setup_pending s"
  "twilio_out (on_twilio_message i s d) = twilio_out s"
  by (cases i; cases d; simp add: on_twilio_message_def on_twilio_message_outbound_def
        on_twilio_message_part000_def Let_def split: sum.splits)+

lemma agree_on_start: "agree s s' \<Longrightarrow> agree (on_start l m s) (on_start l m s')"
  by (simp add: on_start_def Let_def split: sum.splits) (simp add: agree_def)

lemma agree_on_media: "agree s s' \<Longrightarrow> agree (on_media m s) (on_media m s')"
  by (simp add: agree_def on_media_def split: sum.splits)

lemma agree_on_stop_outbound: "agree s s' \<Longrightarrow> agree (on_stop_outbound s) (on_stop_outbound s')"
  by (simp add: agree_def on_stop_outbound_def Let_def split: option.splits)

lemma agree_on_stop_part000: "agree s s' \<Longrightarrow> agree (on_stop_part000 s) (on_stop_part000 s')"
  by (simp add: agree_def on_stop_part000_def Let_def)

lemma agree_on_twilio_message:
  assumes "agree s s'"
  shows "agree (on_twilio_message i s d) (on_twilio_message i s' d)"
proof (cases i)
  case Outbound_js
  then show ?thesis
    using assms agree_on_start agree_on_media agree_on_stop_outbound
    by (cases d) (simp_all add: on_twilio_message_def on_twilio_message_outbound_def Let_def
          split: sum.splits)
next
  case Part_000
  have "agree (say l s) (say l s')" for l
    using assms by simp
  then show ?thesis
    using Part_000 assms agree_on_start agree_on_media agree_on_stop_part000
    by (cases d) (simp_all add: on_twilio_message_def on_twilio_message_part000_def Let_def
          split: sum.splits)
qed

lemma agree_step: "agree s s' \<Longrightarrow> agree (step i s e) (step i s' e)"
proof (cases e)
  case (TwilioMessage d)
  assume "agree s s'"
  with TwilioMessage show ?thesis by (simp add: agree_on_twilio_message)
next
  case (AgentMessage d)
  assume a: "agree s s'"
  then have "elevenLabsWs s = elevenLabsWs s'" by (simp add: agree_def)
  with a AgentMessage show ?thesis by (simp add: agree_on_agent_message)
next
  case AgentOpen
  assume a: "agree s s'"
  then show ?thesis using AgentOpen by (simp add: agree_def)
next
  case AgentClose
  assume a: "agree s s'"
  then show ?thesis using AgentClose
    by (simp add: agree_def on_agent_close_def split: option.splits ready_state.splits)
next
  case AgentError
  assume a: "agree s s'"
  then show ?thesis using AgentError
    by (simp add: agree_def on_agent_close_def on_agent_error_def
          split: option.splits ready_state.splits)
qed (simp_all add: agree_def)

lemma agree_fatal: "agree s s' \<Longrightarrow> fatal i s e = fatal i s' e"
proof (cases e)
  case (TwilioMessage d)
  assume a: "agree s s'"
  then have "agree (on_twilio_message i s d) (on_twilio_message i s' d)"
    by (rule agree_on_twilio_message)
  with a TwilioMessage show ?thesis by (simp add: agree_def)
qed (simp_all add: agree_def)

lemma agree_run: "agree s s' \<Longrightarrow> agree (run i s es) (run i s' es)"
proof (induction es arbitrary: s s')
  case Nil
  then show ?case by simp
next
  case (Cons e es)
  have f: "fatal i s e = fatal i s' e"
    using Cons.prems by (rule agree_fatal)
  have "agree (step i s e) (step i s' e)"
    using Cons.prems by (rule agree_step)
  with f Cons.IH show ?case by (simp del: step.simps fatal.simps)
qed

text \<open>An event that only adds to the console can be left out of a run.\<close>

lemma agree_skip:
  assumes quiet_event: "\<And>s. agree (step i s e) s" and harmless: "\<And>s. \<not> fatal i s e"
  shows "agree s s' \<Longrightarrow> agree (run i s (es @ e # es')) (run i s' (es @ es'))"
proof (induction es arbitrary: s s')
  case Nil
  have "agree (step i s e) s'"
    using quiet_event Nil by (rule agree_trans)
  then have "agree (run i (step i s e) es') (run i s' es')"
    by (rule agree_run)
  then show ?case by (simp add: harmless del: step.simps fatal.simps)
next
  case (Cons x xs)
  have f: "fatal i s x = fatal i s' x"
    using Cons.prems by (rule agree_fatal)
  have "agree (step i s x) (step i s' x)"
    using Cons.prems by (rule agree_step)
  with f Cons.IH show ?case by (simp del: step.simps fatal.simps)
qed

lemma step_malformed_twilio:
  "step i s (TwilioMessage None) =
     s\<lparr>console := console s @ [Failure ''[Twilio] Error processing message:'' SyntaxError]\<rparr>"
  by (cases i; simp add: on_twilio_message_def on_twilio_message_outbound_def
        on_twilio_message_part000_def say_def)

lemma step_malformed_agent:
  "step i s (AgentMessage None) =
     (if elevenLabsWs s = Some OPEN \<or> elevenLabsWs s = Some CLOSING
      then s\<lparr>console := console s @ [Failure ''[ElevenLabs] Error processing message:'' SyntaxError]\<rparr>
      else s)"
  by (cases i; simp add: on_agent_message_def on_agent_message_outbound_def
        on_agent_message_part000_def say_def)

lemma get_Val_dot: "get a k = Val v \<Longrightarrow> dot a k = Inr (Val v)"
  by (cases a rule: nullish.cases) (simp_all add: dot_def)

lemma event_is_dot: "event_is n msg \<Longrightarrow> dot (Val msg) ''event'' = Inr (Val (JStr n))"
  by (simp add: event_is_def get_Val_dot)

lemma on_twilio_message_media:
  "event_is ''media'' msg \<Longrightarrow> on_twilio_message i s (Some msg) = on_media (Val msg) s"
  by (cases i) (simp_all add: on_twilio_message_def on_twilio_message_outbound_def
        on_twilio_message_part000_def event_is_dot)

lemma on_media_closed: "elevenLabsWs s \<noteq> Some OPEN \<Longrightarrow> on_media m s = s"
  by (simp add: on_media_def)

lemma on_media_open:
  "elevenLabsWs s = Some OPEN \<Longrightarrow> get (get m ''media'') ''payload'' = Val p \<Longrightarrow>
   on_media m s = s\<lparr>agent_out := agent_out s @ [Send (user_audio_frame p)]\<rparr>"
  by (simp add: on_media_def get_Val_dot agent_send_def JSON_stringify_def user_audio_frame_def)

text \<open>Nothing is called on the agent socket before it is open.\<close>

lemma quiet_say [simp]: "quiet (say l s) = quiet s"
  by (simp add: quiet_def unopened_def)

lemma quiet_on_start [simp]: "quiet (on_start l m s) = quiet s"
  by (simp add: quiet_def unopened_def)

lemma quiet_on_media: "quiet s \<Longrightarrow> quiet (on_media m s)"
  by (auto simp: quiet_def unopened_def on_media_def split: sum.splits)

lemma quiet_on_stop_outbound: "quiet s \<Longrightarrow> quiet (on_stop_outbound s)"
  by (auto simp: quiet_def unopened_def on_stop_outbound_def Let_def split: option.splits)

lemma quiet_on_stop_part000: "quiet s \<Longrightarrow> quiet (on_stop_part000 s)"
  by (auto simp: quiet_def unopened_def on_stop_part000_def Let_def)

lemma quiet_on_twilio_message: "quiet s \<Longrightarrow> quiet (on_twilio_message i s d)"
  by (cases i; cases d)
     (simp_all add: on_twilio_message_def on_twilio_message_outbound_def
        on_twilio_message_part000_def Let_def quiet_on_media quiet_on_stop_outbound
        quiet_on_stop_part000 split: sum.splits)

lemma quiet_step: "quiet s \<Longrightarrow> quiet (step i s e)"
proof (cases e)
  case (TwilioMessage d)
  assume "quiet s"
  with TwilioMessage show ?thesis by (simp add: quiet_on_twilio_message)
next
  case AgentClose
  assume "quiet s"
  with AgentClose show ?thesis
    by (auto simp: quiet_def unopened_def on_agent_close_def
          split: option.splits ready_state.splits)
next
  case AgentError
  assume "quiet s"
  with AgentError show ?thesis
    by (auto simp: quiet_def unopened_def on_agent_close_def on_agent_error_def
          split: option.splits ready_state.splits)
qed (auto simp: quiet_def unopened_def)

lemma quiet_run: "quiet s \<Longrightarrow> quiet (run i s es)"
  by (induction es arbitrary: s) (simp_all add: quiet_step del: step.simps fatal.simps)

lemma quiet_init: "quiet init"
  by (simp add: quiet_def init_def)

lemma unopened_run_init: "unopened (run i init es) \<Longrightarrow> agent_out (run i init es) = []"
  using quiet_run [OF quiet_init, of i es] by (simp add: quiet_def)

text \<open>Evaluating a run on given events.\<close>

lemmas run_defs = init_def on_open_def initialConfig_def JSON_stringify_def or_else_def
  default_prompt_def default_first_message_def say_def agent_send_def twilio_send_def
  agent_close_def say_template_def on_agent_message_def on_agent_message_outbound_def
  on_agent_message_part000_def audio_case_outbound_def audio_case_part000_def
  ping_case_outbound_def agent_response_case_def user_transcript_case_def default_case_def
  on_agent_close_def on_start_def on_media_def on_stop_outbound_def on_stop_part000_def
  on_twilio_message_def on_twilio_message_outbound_def on_twilio_message_part000_def
  on_agent_error_def dot_def Let_def config_frame_def media_frame_def user_audio_frame_def
  pong_frame_def

text \<open>A socket that is not open stays so until its \<^verbatim>\<open>open\<close> event.\<close>

lemma on_twilio_message_not_open:
  "elevenLabsWs s \<noteq> Some OPEN \<Longrightarrow> elevenLabsWs (on_twilio_message i s d) \<noteq> Some OPEN"
  by (cases i; cases d)
     (simp_all add: on_twilio_message_def on_twilio_message_outbound_def
        on_twilio_message_part000_def on_stop_outbound_def on_stop_part000_def Let_def
        split: sum.splits option.splits)

lemma step_not_open:
  "elevenLabsWs s \<noteq> Some OPEN \<Longrightarrow> e \<noteq> AgentOpen \<Longrightarrow> elevenLabsWs (step i s e) \<noteq> Some OPEN"
  by (cases e)
     (simp_all add: on_twilio_message_not_open on_agent_close_def on_agent_error_def
        split: option.splits ready_state.splits)

lemma step_media_closed:
  "elevenLabsWs s \<noteq> Some OPEN \<Longrightarrow> is_media e \<Longrightarrow> step i s e = s"
  by (cases e rule: is_media.cases) (simp_all add: on_twilio_message_media on_media_closed)

lemma media_not_fatal: "elevenLabsWs s \<noteq> Some OPEN \<Longrightarrow> is_media e \<Longrightarrow> \<not> fatal i s e"
  by (cases e rule: is_media.cases) (simp_all add: on_twilio_message_media on_media_closed)

lemma run_without_early_media:
  "elevenLabsWs s \<noteq> Some OPEN \<Longrightarrow> AgentOpen \<notin> set es \<Longrightarrow>
   run i s (es @ es') = run i s (filter (\<lambda>e. \<not> is_media e) es @ es')"
proof (induction es arbitrary: s)
  case Nil
  show ?case by simp
next
  case (Cons e es)
  show ?case
  proof (cases "is_media e")
    case True
    with Cons show ?thesis
      by (simp add: step_media_closed media_not_fatal del: step.simps fatal.simps)
  next
    case False
    from Cons.prems have "elevenLabsWs (step i s e) \<noteq> Some OPEN"
      by (intro step_not_open) auto
    with Cons False show ?thesis by (simp del: step.simps fatal.simps)
  qed
qed

text \<open>The initialization frame, and where \<open>customParameters\<close> comes from.\<close>

lemma truthy_Val: "truthy v \<Longrightarrow> v = Val (the_json v)"
  by (cases v) simp_all

lemma own_fields_or_else:
  "own_fields [(k, or_else v (Val (JStr d)))] = [(k, truthy_or v d)]"
  by (cases v) (simp_all add: or_else_def truthy_or_def)

lemma initialConfig_frame:
  "initialConfig i cp =
     config_frame (truthy_or (get cp ''prompt'') (default_prompt i))
       (truthy_or (get cp ''first_message'') (default_first_message i))"
proof -
  have "own_fields [(''first_message'',
          or_else (get cp ''first_message'') (Val (JStr (default_first_message i))))] =
        [(''first_message'', truthy_or (get cp ''first_message'') (default_first_message i))]"
    by (rule own_fields_or_else)
  then show ?thesis
    by (simp add: initialConfig_def config_frame_def JSON_stringify_def own_fields_or_else)
qed

lemma on_start_customParameters:
  "customParameters (on_start l m s) =
     (if nullish (get m ''start'') then customParameters s
      else get (get m ''start'') ''customParameters'')"
  by (simp add: on_start_def dot_def Let_def)

lemma on_twilio_message_customParameters:
  "customParameters (on_twilio_message i s d) =
     (case start_params (TwilioMessage d) of None \<Rightarrow> customParameters s | Some cp \<Rightarrow> cp)"
proof (cases d)
  case None
  then show ?thesis
    by (cases i) (simp_all add: on_twilio_message_def on_twilio_message_outbound_def
          on_twilio_message_part000_def)
next
  case (Some msg)
  show ?thesis
  proof (cases "event_is ''start'' msg")
    case True
    then have "dot (Val msg) ''event'' = Inr (Val (JStr ''start''))"
      by (rule event_is_dot)
    with True Some show ?thesis
      by (cases i) (simp_all add: on_twilio_message_def on_twilio_message_outbound_def
            on_twilio_message_part000_def on_start_customParameters)
  next
    case False
    then have "dot (Val msg) ''event'' \<noteq> Inr (Val (JStr ''start''))"
      by (auto simp: event_is_def dot_def split: if_splits)
    with False Some show ?thesis
      by (cases i) (simp_all add: on_twilio_message_def on_twilio_message_outbound_def
            on_twilio_message_part000_def Let_def split: sum.splits)
  qed
qed

lemma on_twilio_message_start_keeps:
  assumes "event_is ''start'' msg"
  shows "elevenLabsWs (on_twilio_message i s (Some msg)) = elevenLabsWs s"
    and "agent_out (on_twilio_message i s (Some msg)) = agent_out s"
  using event_is_dot [OF assms]
  by (cases i; simp add: on_twilio_message_def on_twilio_message_outbound_def
        on_twilio_message_part000_def)+

lemma step_customParameters:
  "customParameters (step i s e) =
     (case start_params e of None \<Rightarrow> customParameters s | Some cp \<Rightarrow> cp)"
proof (cases e)
  case (TwilioMessage d)
  then show ?thesis
    by (simp add: on_twilio_message_customParameters del: start_params.simps)
next
  case AgentClose
  then show ?thesis
    by (simp add: on_agent_close_def split: option.splits ready_state.splits)
next
  case AgentError
  then show ?thesis
    by (simp add: on_agent_close_def on_agent_error_def
          split: option.splits ready_state.splits)
qed simp_all

lemma run_customParameters:
  "\<not> halted i s es \<Longrightarrow>
   customParameters (run i s es) =
     (case received_start es of None \<Rightarrow> customParameters s | Some cp \<Rightarrow> cp)"
proof (induction es arbitrary: s)
  case Nil
  show ?case by simp
next
  case (Cons e es)
  then have live: "\<not> fatal i s e" "\<not> halted i (step i s e) es"
    by simp_all
  have "customParameters (run i s (e # es)) = customParameters (run i (step i s e) es)"
    using live(1) by simp
  also have "\<dots> = (case received_start es of
                      None \<Rightarrow> customParameters (step i s e) | Some cp \<Rightarrow> cp)"
    using live(2) by (rule Cons.IH)
  also have "\<dots> = (case received_start (e # es) of
                      None \<Rightarrow> customParameters s | Some cp \<Rightarrow> cp)"
    by (simp add: step_customParameters split: option.splits)
  finally show ?case .
qed

text \<open>\<^verbatim>\<open>src/unnamed/part_000\<close> calls \<^verbatim>\<open>close()\<close> at most once.\<close>

lemma close_calls_effects [simp]:
  "close_calls (say l s) = close_calls s"
  "close_calls (agent_send j s) = close_calls s"
  "close_calls (twilio_send j s) = close_calls s"
  "close_calls (agent_close rs s) = Suc (close_calls s)"
  by (simp_all add: close_calls_def)

lemma close_calls_agent_out: "agent_out s' = agent_out s \<Longrightarrow> close_calls s' = close_calls s"
  by (simp add: close_calls_def)

lemma close_calls_on_agent_message_part000 [simp]:
  "close_calls (on_agent_message Part_000 s d) = close_calls s"
  by (cases d)
     (simp_all add: on_agent_message_def on_agent_message_part000_def log_case_defs
        say_template_def Let_def audio_case_part000_def split: sum.splits)

lemma close_calls_on_open [simp]: "close_calls (on_open i s) = close_calls s"
  by (cases i) (simp_all add: on_open_def Let_def)

lemma closed_once_say [simp]: "closed_once (say l s) = closed_once s"
  by (simp add: closed_once_def)

lemma closed_once_on_start [simp]: "closed_once (on_start l m s) = closed_once s"
  by (simp add: closed_once_def close_calls_agent_out [of "on_start l m s" s])

lemma closed_once_on_media: "closed_once s \<Longrightarrow> closed_once (on_media m s)"
  by (auto simp: closed_once_def on_media_def split: sum.splits)

lemma closed_once_on_stop_part000: "closed_once s \<Longrightarrow> closed_once (on_stop_part000 s)"
  by (auto simp: closed_once_def on_stop_part000_def Let_def)

lemma closed_once_on_twilio_message_part000:
  "closed_once s \<Longrightarrow> closed_once (on_twilio_message Part_000 s d)"
  by (cases d)
     (simp_all add: on_twilio_message_def on_twilio_message_part000_def Let_def
        closed_once_on_media closed_once_on_stop_part000 split: sum.splits)

lemma closed_once_step_part000: "closed_once s \<Longrightarrow> closed_once (step Part_000 s e)"
proof (cases e)
  case (TwilioMessage d)
  assume "closed_once s"
  with TwilioMessage show ?thesis by (simp add: closed_once_on_twilio_message_part000)
next
  case AgentClose
  assume "closed_once s"
  with AgentClose show ?thesis
    by (auto simp: closed_once_def on_agent_close_def close_calls_def
          split: option.splits ready_state.splits)
next
  case AgentError
  assume "closed_once s"
  with AgentError show ?thesis
    by (auto simp: closed_once_def on_agent_close_def on_agent_error_def close_calls_def
          split: option.splits ready_state.splits)
next
  case AgentOpen
  assume "closed_once s"
  with AgentOpen show ?thesis
    by (auto simp: closed_once_def close_calls_def)
next
  case (AgentMessage d)
  assume "closed_once s"
  with AgentMessage show ?thesis
    by (auto simp: closed_once_def)
qed (auto simp: closed_once_def close_calls_def)

lemma closed_once_run_part000: "closed_once s \<Longrightarrow> closed_once (run Part_000 s es)"
  by (induction es arbitrary: s)
     (simp_all add: closed_once_step_part000 del: step.simps fatal.simps)

lemma closed_once_init: "closed_once init"
  by (simp add: closed_once_def close_calls_def init_def)

lemma on_twilio_message_stop:
  assumes "event_is ''stop'' msg" and "\<not> unprintable (streamSid s)"
    and "elevenLabsWs s = Some OPEN"
  shows "elevenLabsWs (on_twilio_message i s (Some msg)) = Some CLOSING"
    and "agent_out (on_twilio_message i s (Some msg)) = agent_out s @ [Close OPEN]"
  using event_is_dot [OF assms(1)] assms(2,3)
  by (cases i; simp add: on_twilio_message_def on_twilio_message_outbound_def
        on_twilio_message_part000_def on_stop_outbound_def on_stop_part000_def Let_def)+

text \<open>The agent handler on a message of a given type.\<close>

lemma type_is_dot: "type_is n m \<Longrightarrow> dot (Val m) ''type'' = Inr (Val (JStr n))"
  by (simp add: type_is_def get_Val_dot)

lemma on_agent_message_outbound_ping:
  "type_is ''ping'' m \<Longrightarrow>
   on_agent_message Outbound_js s (Some m) = ping_case_outbound (Val m) s"
  by (simp add: on_agent_message_def on_agent_message_outbound_def type_is_dot)

lemma on_agent_message_outbound_audio:
  "type_is ''audio'' m \<Longrightarrow>
   on_agent_message Outbound_js s (Some m) = audio_case_outbound (Val m) s"
  by (simp add: on_agent_message_def on_agent_message_outbound_def type_is_dot)

lemma on_agent_message_part000_ping:
  "type_is ''ping'' m \<Longrightarrow>
   on_agent_message Part_000 s (Some m) = default_case (Val (JStr ''ping'')) s"
  by (simp add: on_agent_message_def on_agent_message_part000_def type_is_dot)

lemma on_agent_message_part000_audio:
  "type_is ''audio'' m \<Longrightarrow>
   on_agent_message Part_000 s (Some m) = audio_case_part000 (Val m) s"
  by (simp add: on_agent_message_def on_agent_message_part000_def type_is_dot)

text \<open>Where the two files do the same.\<close>

lemma dot_Inr_get: "dot a k = Inr t \<Longrightarrow> get a k = t"
  by (simp add: dot_def split: if_splits)

lemma initialConfig_custom:
  "truthy (get cp ''prompt'') \<Longrightarrow> truthy (get cp ''first_message'') \<Longrightarrow>
   initialConfig i cp = initialConfig j cp"
  by (simp add: initialConfig_frame truthy_or_def)

lemma coincide_agent_open:
  assumes "coincide s AgentOpen"
  shows "agree (step Outbound_js s AgentOpen) (step Part_000 s AgentOpen)"
proof (cases "elevenLabsWs s = Some CONNECTING")
  case True
  with assms have "initialConfig Outbound_js (customParameters s) =
                   initialConfig Part_000 (customParameters s)"
    by (simp add: initialConfig_custom)
  with True show ?thesis by (simp add: agree_def)
next
  case False
  then show ?thesis by simp
qed

lemma coincide_audio:
  assumes "truthy (streamSid s) \<longrightarrow> truthy (get (get m ''audio'') ''chunk'')"
  shows "agree (audio_case_outbound m s) (audio_case_part000 m s)"
  using assms
  by (simp add: audio_case_outbound_def audio_case_part000_def or_else_def agree_def)

lemma coincide_ping:
  assumes "\<not> truthy (get (get m ''ping_event'') ''event_id'')"
  shows "agree (ping_case_outbound m s) (default_case t s)"
  using assms by (simp add: ping_case_outbound_def default_case_def)

lemma coincide_agent_message:
  assumes "coincide s (AgentMessage d)"
  shows "agree (on_agent_message Outbound_js s d) (on_agent_message Part_000 s d)"
proof (cases d)
  case None
  then show ?thesis
    by (simp add: on_agent_message_def on_agent_message_outbound_def
          on_agent_message_part000_def)
next
  case (Some m)
  show ?thesis
  proof (cases "dot (Val m) ''type''")
    case (Inl e)
    with Some show ?thesis
      by (simp add: on_agent_message_def on_agent_message_outbound_def
            on_agent_message_part000_def)
  next
    case (Inr t)
    then have t: "get (Val m) ''type'' = t" by (rule dot_Inr_get)
    consider (audio) "t = Val (JStr ''audio'')" | (ping) "t = Val (JStr ''ping'')"
      | (other) "t \<noteq> Val (JStr ''audio'')" "t \<noteq> Val (JStr ''ping'')"
      by blast
    then show ?thesis
    proof cases
      case audio
      with assms Some t
      have "truthy (streamSid s) \<longrightarrow> truthy (get (get (Val m) ''audio'') ''chunk'')"
        by (simp add: type_is_def)
      then have "agree (audio_case_outbound (Val m) s) (audio_case_part000 (Val m) s)"
        by (rule coincide_audio)
      with audio Some Inr show ?thesis
        by (simp add: on_agent_message_def on_agent_message_outbound_def
              on_agent_message_part000_def)
    next
      case ping
      with assms Some t
      have "\<not> truthy (get (get (Val m) ''ping_event'') ''event_id'')"
        by (simp add: type_is_def)
      then have "agree (ping_case_outbound (Val m) s) (default_case t s)"
        by (rule coincide_ping)
      with ping Some Inr show ?thesis
        by (simp add: on_agent_message_def on_agent_message_outbound_def
              on_agent_message_part000_def)
    next
      case other
      with Some Inr show ?thesis
        by (simp add: on_agent_message_def on_agent_message_outbound_def
              on_agent_message_part000_def log_case_defs Let_def)
    qed
  qed
qed

lemma coincide_stop:
  assumes "elevenLabsWs s = None \<or> elevenLabsWs s = Some OPEN"
  shows "agree (on_stop_outbound s) (on_stop_part000 (say l s))"
  using assms
  by (auto simp: on_stop_outbound_def on_stop_part000_def Let_def agree_def)

lemma coincide_twilio_message:
  assumes "coincide s (TwilioMessage d)"
  shows "agree (on_twilio_message Outbound_js s d) (on_twilio_message Part_000 s d)"
proof (cases d)
  case None
  then show ?thesis
    by (simp add: on_twilio_message_def on_twilio_message_outbound_def
          on_twilio_message_part000_def)
next
  case (Some msg)
  show ?thesis
  proof (cases "dot (Val msg) ''event''")
    case (Inl e)
    with Some show ?thesis
      by (simp add: on_twilio_message_def on_twilio_message_outbound_def
            on_twilio_message_part000_def)
  next
    case (Inr ev)
    then have ev: "get (Val msg) ''event'' = ev" by (rule dot_Inr_get)
    consider (start) "ev = Val (JStr ''start'')" | (media) "ev = Val (JStr ''media'')"
      | (stop) "ev = Val (JStr ''stop'')"
      | (other) "ev \<noteq> Val (JStr ''start'')" "ev \<noteq> Val (JStr ''media'')"
          "ev \<noteq> Val (JStr ''stop'')"
      by blast
    then show ?thesis
    proof cases
      case start
      have "agree (on_start l (Val msg) s) (on_start l (Val msg) (say x s))" for l x
        by (rule agree_on_start) simp
      with start Some Inr show ?thesis
        by (simp add: on_twilio_message_def on_twilio_message_outbound_def
              on_twilio_message_part000_def)
    next
      case media
      with Some Inr show ?thesis
        by (simp add: on_twilio_message_def on_twilio_message_outbound_def
              on_twilio_message_part000_def)
    next
      case stop
      with assms Some ev have "elevenLabsWs s = None \<or> elevenLabsWs s = Some OPEN"
        by (simp add: event_is_def)
      then have "agree (on_stop_outbound s) (on_stop_part000 (say l s))" for l
        by (rule coincide_stop)
      with stop Some Inr show ?thesis
        by (simp add: on_twilio_message_def on_twilio_message_outbound_def
              on_twilio_message_part000_def)
    next
      case other
      with Some Inr show ?thesis
        by (simp add: on_twilio_message_def on_twilio_message_outbound_def
              on_twilio_message_part000_def)
    qed
  qed
qed

lemma coincide_step_same:
  assumes "coincide s e"
  shows "agree (step Outbound_js s e) (step Part_000 s e)"
proof (cases e)
  case AgentOpen
  with assms show ?thesis using coincide_agent_open by blast
next
  case (AgentMessage d)
  with assms show ?thesis by (simp add: coincide_agent_message del: coincide.simps)
next
  case (TwilioMessage d)
  with assms show ?thesis by (simp add: coincide_twilio_message del: coincide.simps)
next
  case AgentError
  with assms show ?thesis by auto
qed (simp_all add: on_agent_close_def split: option.splits ready_state.splits)

lemma on_twilio_message_keeps_socket:
  assumes "\<not> event_is ''stop'' msg"
  shows "elevenLabsWs (on_twilio_message i s (Some msg)) = elevenLabsWs s"
proof (cases "dot (Val msg) ''event''")
  case (Inl e)
  then show ?thesis
    by (cases i) (simp_all add: on_twilio_message_def on_twilio_message_outbound_def
          on_twilio_message_part000_def)
next
  case (Inr ev)
  then have "get (Val msg) ''event'' = ev" by (rule dot_Inr_get)
  with assms have "ev \<noteq> Val (JStr ''stop'')" by (simp add: event_is_def)
  with Inr show ?thesis
    by (cases i) (simp_all add: on_twilio_message_def on_twilio_message_outbound_def
          on_twilio_message_part000_def Let_def)
qed

lemma on_twilio_message_malformed_keeps_socket:
  "elevenLabsWs (on_twilio_message i s None) = elevenLabsWs s"
  by (cases i) (simp_all add: on_twilio_message_def on_twilio_message_outbound_def
        on_twilio_message_part000_def)

lemma coincide_not_fatal: "coincide s e \<Longrightarrow> \<not> fatal i s e"
proof (cases e)
  case AgentError
  assume "coincide s e"
  with AgentError show ?thesis by auto
next
  case (TwilioMessage d)
  assume c: "coincide s e"
  show ?thesis
  proof (cases d)
    case None
    with TwilioMessage show ?thesis
      by (simp add: on_twilio_message_malformed_keeps_socket)
  next
    case (Some msg)
    show ?thesis
    proof (cases "event_is ''stop'' msg")
      case True
      with c TwilioMessage Some show ?thesis by auto
    next
      case False
      with TwilioMessage Some show ?thesis
        by (simp add: on_twilio_message_keeps_socket)
    qed
  qed
qed simp_all

lemma coincide_agree:
  assumes "agree s s'" and "coincide s e"
  shows "agree (step Outbound_js s e) (step Part_000 s' e)"
proof -
  have "agree (step Outbound_js s e) (step Part_000 s e)"
    using assms(2) by (rule coincide_step_same)
  moreover have "agree (step Part_000 s e) (step Part_000 s' e)"
    using assms(1) by (rule agree_step)
  ultimately show ?thesis by (rule agree_trans)
qed

lemma coincide_run_agree:
  "agree s s' \<Longrightarrow> coincide_run s es \<Longrightarrow>
   agree (run Outbound_js s es) (run Part_000 s' es)"
proof (induction es arbitrary: s s')
  case Nil
  then show ?case by simp
next
  case (Cons e es)
  from Cons.prems have "agree (step Outbound_js s e) (step Part_000 s' e)"
    by (simp add: coincide_agree del: step.simps)
  moreover from Cons.prems have "coincide_run (step Outbound_js s e) es"
    by simp
  moreover from Cons.prems have "\<not> fatal Outbound_js s e"
    by (simp add: coincide_not_fatal del: fatal.simps)
  ultimately show ?case
    using Cons.IH by (simp del: step.simps fatal.simps)
qed

section \<open>Malformed events\<close>

text \<open>
  Claim C9. An event whose data \<^verbatim>\<open>JSON.parse\<close> rejects, on the telephony stream or on
  the agent stream, is caught and logged: the handler adds one line to the console and
  changes nothing else, so no socket is closed and no variable is assigned. Processing
  continues: the events that follow are handled as if the malformed event had never
  arrived, the console apart. (The agent socket delivers messages while it is open or
  closing.)
\<close>

theorem malformed_event_logged_and_skipped:
  "step i s (TwilioMessage None) =
     s\<lparr>console := console s @ [Failure ''[Twilio] Error processing message:'' SyntaxError]\<rparr>
   \<and> step i s (AgentMessage None) =
     (if elevenLabsWs s = Some OPEN \<or> elevenLabsWs s = Some CLOSING
      then s\<lparr>console := console s @ [Failure ''[ElevenLabs] Error processing message:'' SyntaxError]\<rparr>
      else s)
   \<and> agree (run i s (es @ TwilioMessage None # es')) (run i s (es @ es'))
   \<and> agree (run i s (es @ AgentMessage None # es')) (run i s (es @ es'))"
proof -
  have t: "agree (step i s' (TwilioMessage None)) s'" for s'
    unfolding step_malformed_twilio by (simp add: agree_def)
  have a: "agree (step i s' (AgentMessage None)) s'" for s'
    unfolding step_malformed_agent by (simp add: agree_def)
  have t': "\<not> fatal i s' (TwilioMessage None)" for s'
    by (simp add: on_twilio_message_malformed_keeps_socket)
  have a': "\<not> fatal i s' (AgentMessage None)" for s'
    by simp
  have "agree (run i s (es @ TwilioMessage None # es')) (run i s (es @ es'))"
    using t t' agree_refl by (rule agree_skip)
  moreover have "agree (run i s (es @ AgentMessage None # es')) (run i s (es @ es'))"
    using a a' agree_refl by (rule agree_skip)
  ultimately show ?thesis
    by (simp add: step_malformed_twilio step_malformed_agent del: step.simps)
qed

section \<open>Caller audio\<close>

text \<open>
  Claim C7. A telephony \<^verbatim>\<open>media\<close> event that carries a payload is forwarded to the
  agent as \<^verbatim>\<open>{user_audio_chunk: payload}\<close>, the payload as it came, when the agent
  socket is open: that one \<^verbatim>\<open>send\<close> is all the event does. When the socket is not open
  (no socket yet, connecting, closing or closed) a \<^verbatim>\<open>media\<close> event leaves the session
  exactly as it was: nothing is sent, kept or logged. And in every run of either relay, as
  long as the agent socket has not reached the open state, nothing at all has been called
  on it.
\<close>

theorem media_forwarded_only_while_agent_open:
  "(elevenLabsWs s = Some OPEN \<and> event_is ''media'' msg \<and>
      get (get (Val msg) ''media'') ''payload'' = Val p \<longrightarrow>
      step i s (TwilioMessage (Some msg)) =
        s\<lparr>agent_out := agent_out s @ [Send (user_audio_frame p)]\<rparr>)
   \<and> (elevenLabsWs s \<noteq> Some OPEN \<and> event_is ''media'' msg \<longrightarrow>
      step i s (TwilioMessage (Some msg)) = s)
   \<and> (elevenLabsWs (run i init es) = None \<or> elevenLabsWs (run i init es) = Some CONNECTING \<longrightarrow>
      agent_out (run i init es) = [])"
  using unopened_run_init [of i es]
  by (simp add: on_twilio_message_media on_media_closed on_media_open unopened_def)

theorem media_forwarded_only_while_agent_open_witness:
  "step Outbound_js (run Outbound_js init [SocketCreated, AgentOpen])
     (TwilioMessage (Some (JObj [(''event'', JStr ''media''),
        (''media'', JObj [(''payload'', JStr ''AAAA'')])]))) =
   (run Outbound_js init [SocketCreated, AgentOpen])
     \<lparr>agent_out := agent_out (run Outbound_js init [SocketCreated, AgentOpen])
        @ [Send (user_audio_frame (JStr ''AAAA''))]\<rparr>
   \<and> step Part_000 (run Part_000 init [SocketCreated])
     (TwilioMessage (Some (JObj [(''event'', JStr ''media''),
        (''media'', JObj [(''payload'', JStr ''AAAA'')])]))) =
     run Part_000 init [SocketCreated]
   \<and> agent_out (run Part_000 init [SocketCreated,
        TwilioMessage (Some (JObj [(''event'', JStr ''media''),
          (''media'', JObj [(''payload'', JStr ''AAAA'')])]))]) = []"
proof -
  let ?m = "JObj [(''event'', JStr ''media''), (''media'', JObj [(''payload'', JStr ''AAAA'')])]"
  have m: "event_is ''media'' ?m" "get (get (Val ?m) ''media'') ''payload'' = Val (JStr ''AAAA'')"
    by (simp_all add: event_is_def)
  have o: "elevenLabsWs (run Outbound_js init [SocketCreated, AgentOpen]) = Some OPEN"
    by (simp add: init_def)
  have c: "elevenLabsWs (run Part_000 init [SocketCreated]) \<noteq> Some OPEN"
    by (simp add: init_def)
  have u: "elevenLabsWs (run Part_000 init [SocketCreated, TwilioMessage (Some ?m)]) = Some CONNECTING"
    by (simp add: init_def on_twilio_message_media [OF m(1)])
  show ?thesis
    using media_forwarded_only_while_agent_open
            [of "run Outbound_js init [SocketCreated, AgentOpen]" ?m "JStr ''AAAA''" Outbound_js "[]"]
          media_forwarded_only_while_agent_open
            [of "run Part_000 init [SocketCreated]" ?m "JStr ''AAAA''" Part_000
                "[SocketCreated, TwilioMessage (Some ?m)]"]
          m o c u
    by blast
qed

text \<open>
  Claim C1, as amended. The relay does not look at whether \<^verbatim>\<open>start\<close> has arrived when it
  handles \<^verbatim>\<open>media\<close>; it looks at the agent socket. So the \<^verbatim>\<open>media\<close> events that arrive
  before the agent connection has opened, before \<^verbatim>\<open>start\<close> or after it, are dropped and
  not queued: the session runs on exactly as if they had never arrived.
\<close>

theorem media_before_agent_open_dropped:
  "AgentOpen \<notin> set es \<Longrightarrow>
   run i init (es @ es') = run i init (filter (\<lambda>e. \<not> is_media e) es @ es')"
  by (rule run_without_early_media) (simp_all add: init_def)

theorem media_before_agent_open_dropped_witness:
  "run Outbound_js init
     ([TwilioMessage (Some (JObj [(''event'', JStr ''media''),
         (''media'', JObj [(''payload'', JStr ''AAAA'')])])), SocketCreated] @ [AgentOpen]) =
   run Outbound_js init ([SocketCreated] @ [AgentOpen])"
  using media_before_agent_open_dropped
    [of "[TwilioMessage (Some (JObj [(''event'', JStr ''media''),
           (''media'', JObj [(''payload'', JStr ''AAAA'')])])), SocketCreated]"
        Outbound_js "[AgentOpen]"]
  by (simp add: event_is_def del: run.simps)

text \<open>
  Claim C1 as stated fails: no \<^verbatim>\<open>start\<close> has arrived, the agent connection is open, and
  the payload of the \<^verbatim>\<open>media\<close> event is forwarded.
\<close>

theorem media_before_start_counterexample:
  "agent_out (run Outbound_js init
     [SocketCreated, AgentOpen,
      TwilioMessage (Some (JObj [(''event'', JStr ''media''),
         (''media'', JObj [(''payload'', JStr ''AAAA'')])]))]) =
   [Send (config_frame (JStr ''You are Gary from the phone store.'')
            (JStr ''Hey there! How can I help you today?'')),
    Send (user_audio_frame (JStr ''AAAA''))]"
  by (simp add: run_defs)


section \<open>The end of the telephony stream\<close>

text \<open>
  Claim C3, as amended. Neither relay has a \<^verbatim>\<open>close\<close> listener on the telephony socket,
  and the \<^verbatim>\<open>error\<close> listener is \<^verbatim>\<open>console.error\<close>. When the telephony stream closes
  the session is left exactly as it was, and when it errors one line is logged: the agent
  connection is not closed and nothing is torn down.
\<close>

theorem telephony_close_or_error_leaves_agent_connection:
  "step i s TwilioClose = s \<and>
   step i s TwilioError = s\<lparr>console := console s @ [Line ERROR ''error'' []]\<rparr>"
  by (simp add: say_def)


text \<open>
  Claim C3 as stated fails: after the telephony stream has closed, or has had an error, the
  agent connection is still open and \<^verbatim>\<open>close()\<close> has not been called on it.
\<close>

theorem telephony_close_counterexample:
  "elevenLabsWs (run Outbound_js init [SocketCreated, AgentOpen, TwilioClose]) = Some OPEN \<and>
   agent_out (run Outbound_js init [SocketCreated, AgentOpen, TwilioClose]) =
     [Send (config_frame (JStr ''You are Gary from the phone store.'')
              (JStr ''Hey there! How can I help you today?''))] \<and>
   elevenLabsWs (run Part_000 init [SocketCreated, AgentOpen, TwilioError]) = Some OPEN \<and>
   agent_out (run Part_000 init [SocketCreated, AgentOpen, TwilioError]) =
     [Send (config_frame (JStr ''Hello! How can I help?'') (JStr ''Hi there!''))]"
  by (simp add: run_defs)

section \<open>The initialization frame\<close>

text \<open>
  Claim C4, as amended. When the agent connection opens, the relay sends one
  initialization frame, the first thing it sends. Each of its two fields is the value that
  the last \<^verbatim>\<open>start\<close> event received before the open put into \<open>customParameters\<close> if
  there was such an event and the value is truthy, and the file's fixed fallback string
  otherwise. The frame is a function of the events received before the open, in their
  order of arrival.
\<close>

theorem initialization_frame_from_start_before_open:
  assumes "elevenLabsWs (run i init es) = Some CONNECTING"
  shows "agent_out (run i init (es @ [AgentOpen])) =
     [Send (config_frame
        (case received_start es of
           None \<Rightarrow> JStr (default_prompt i)
         | Some cp \<Rightarrow> truthy_or (get cp ''prompt'') (default_prompt i))
        (case received_start es of
           None \<Rightarrow> JStr (default_first_message i)
         | Some cp \<Rightarrow> truthy_or (get cp ''first_message'') (default_first_message i)))]"
proof -
  let ?s = "run i init es"
  have quiet: "agent_out ?s = []"
    using assms by (intro unopened_run_init) (simp add: unopened_def)
  have live: "\<not> halted i init es"
    using assms halted_closing [of i init es] by auto
  have cp: "customParameters ?s =
      (case received_start es of None \<Rightarrow> Val JNull | Some cp \<Rightarrow> cp)"
    using live by (simp add: run_customParameters init_def split: option.splits)
  have "agent_out (run i init (es @ [AgentOpen])) =
        agent_out ?s @ [Send (initialConfig i (customParameters ?s))]"
    using assms live by (simp add: run_halted_append)
  then show ?thesis
    by (simp add: quiet cp initialConfig_frame truthy_or_def split: option.splits)
qed

theorem initialization_frame_from_start_before_open_witness:
  "agent_out (run Outbound_js init
     ([SocketCreated,
       TwilioMessage (Some (JObj [(''event'', JStr ''start''),
         (''start'', JObj [(''streamSid'', JStr ''S1''), (''callSid'', JStr ''C1''),
            (''customParameters'',
               JObj [(''prompt'', JStr ''X''), (''first_message'', JStr ''Y'')])])]))]
      @ [AgentOpen])) =
   [Send (config_frame (JStr ''X'') (JStr ''Y''))]"
proof -
  let ?es = "[SocketCreated,
       TwilioMessage (Some (JObj [(''event'', JStr ''start''),
         (''start'', JObj [(''streamSid'', JStr ''S1''), (''callSid'', JStr ''C1''),
            (''customParameters'',
               JObj [(''prompt'', JStr ''X''), (''first_message'', JStr ''Y'')])])]))]"
  have c: "elevenLabsWs (run Outbound_js init ?es) = Some CONNECTING"
    by (simp add: run_defs)
  show ?thesis
    using initialization_frame_from_start_before_open [OF c]
    by (simp add: event_is_def truthy_or_def del: run.simps)
qed

text \<open>
  Claim C4 as stated fails: \<^verbatim>\<open>start\<close> was received before the agent connection opened,
  and the frame's prompt is the fallback string, not the (empty) \<open>prompt\<close> of
  \<open>customParameters\<close>.
\<close>

theorem empty_prompt_counterexample:
  "agent_out (run Outbound_js init
     [SocketCreated,
      TwilioMessage (Some (JObj [(''event'', JStr ''start''),
        (''start'', JObj [(''streamSid'', JStr ''S1''), (''callSid'', JStr ''C1''),
           (''customParameters'',
              JObj [(''prompt'', JStr ''''), (''first_message'', JStr ''Y'')])])])),
      AgentOpen]) =
   [Send (config_frame (JStr ''You are Gary from the phone store.'') (JStr ''Y''))]"
  by (simp add: run_defs)

text \<open>
  Claim C10. If a \<^verbatim>\<open>start\<close> event supplies \<open>customParameters\<close> whose \<open>prompt\<close> is
  falsy (the empty string, \<^verbatim>\<open>0\<close>, \<^verbatim>\<open>false\<close>, \<^verbatim>\<open>null\<close> or absent), the initialization frame
  sent when the agent connection then opens carries the fallback prompt; and likewise for
  \<open>first_message\<close>.
\<close>

theorem falsy_custom_parameter_gets_default:
  assumes "event_is ''start'' msg"
    and "get (get (Val msg) ''start'') ''customParameters'' = Val cp"
    and "elevenLabsWs s = Some CONNECTING"
  shows "(\<not> truthy (get (Val cp) ''prompt'') \<longrightarrow>
            (\<exists>f. agent_out (run i s [TwilioMessage (Some msg), AgentOpen]) =
                  agent_out s @ [Send (config_frame (JStr (default_prompt i)) f)]))
       \<and> (\<not> truthy (get (Val cp) ''first_message'') \<longrightarrow>
            (\<exists>p. agent_out (run i s [TwilioMessage (Some msg), AgentOpen]) =
                  agent_out s @ [Send (config_frame p (JStr (default_first_message i)))]))"
proof -
  let ?s = "step i s (TwilioMessage (Some msg))"
  have "get (Val msg) ''start'' \<noteq> Undefined \<and> get (Val msg) ''start'' \<noteq> Val JNull"
    using assms(2) by auto
  then have "\<not> nullish (get (Val msg) ''start'')"
    by (cases "get (Val msg) ''start''" rule: nullish.cases) simp_all
  with assms(1,2) have "start_params (TwilioMessage (Some msg)) = Some (Val cp)"
    by simp
  then have cp: "customParameters ?s = Val cp"
    by (simp add: step_customParameters del: step.simps start_params.simps)
  have ws: "elevenLabsWs ?s = Some CONNECTING" and out: "agent_out ?s = agent_out s"
    using assms(1,3) by (simp_all add: on_twilio_message_start_keeps)
  have live: "\<not> fatal i s (TwilioMessage (Some msg))"
    using assms(1,3) by (simp add: on_twilio_message_start_keeps)
  have "run i s [TwilioMessage (Some msg), AgentOpen] = run i ?s [AgentOpen]"
    using live by (simp del: step.simps fatal.simps)
  also have "\<dots> = step i ?s AgentOpen"
    by (simp del: step.simps)
  finally have "agent_out (run i s [TwilioMessage (Some msg), AgentOpen]) =
        agent_out s @ [Send (initialConfig i (Val cp))]"
    using ws out cp by simp
  then show ?thesis
    by (auto simp: initialConfig_frame truthy_or_def)
qed

theorem falsy_custom_parameter_gets_default_witness:
  "(\<exists>f. agent_out (run Part_000 (run Part_000 init [SocketCreated])
        [TwilioMessage (Some (JObj [(''event'', JStr ''start''),
           (''start'', JObj [(''streamSid'', JStr ''S1''), (''callSid'', JStr ''C1''),
              (''customParameters'',
                 JObj [(''prompt'', JStr ''''), (''first_message'', JNull)])])])),
         AgentOpen]) =
      agent_out (run Part_000 init [SocketCreated]) @
        [Send (config_frame (JStr (default_prompt Part_000)) f)])
   \<and> (\<exists>p. agent_out (run Part_000 (run Part_000 init [SocketCreated])
        [TwilioMessage (Some (JObj [(''event'', JStr ''start''),
           (''start'', JObj [(''streamSid'', JStr ''S1''), (''callSid'', JStr ''C1''),
              (''customParameters'',
                 JObj [(''prompt'', JStr ''''), (''first_message'', JNull)])])])),
         AgentOpen]) =
      agent_out (run Part_000 init [SocketCreated]) @
        [Send (config_frame p (JStr (default_first_message Part_000)))])"
proof -
  let ?cp = "JObj [(''prompt'', JStr ''''), (''first_message'', JNull)]"
  let ?m = "JObj [(''event'', JStr ''start''),
           (''start'', JObj [(''streamSid'', JStr ''S1''), (''callSid'', JStr ''C1''),
              (''customParameters'', ?cp)])]"
  have a: "event_is ''start'' ?m" by (simp add: event_is_def)
  have b: "get (get (Val ?m) ''start'') ''customParameters'' = Val ?cp" by simp
  have c: "elevenLabsWs (run Part_000 init [SocketCreated]) = Some CONNECTING"
    by (simp add: init_def)
  have d: "\<not> truthy (get (Val ?cp) ''prompt'')" "\<not> truthy (get (Val ?cp) ''first_message'')"
    by simp_all
  show ?thesis
    using falsy_custom_parameter_gets_default [OF a b c, of Part_000] d by blast
qed

section \<open>The stop event\<close>

text \<open>
  The \<^verbatim>\<open>stop\<close> case of \<^verbatim>\<open>src/unnamed/part_000\<close> calls \<^verbatim>\<open>close()\<close> only on an open
  socket, which is closing from then on. So in every run of that file, whatever the number
  of \<^verbatim>\<open>stop\<close> events, \<^verbatim>\<open>close()\<close> is called on the agent socket at most once.
\<close>

theorem part000_closes_at_most_once:
  "close_calls (run Part_000 init es) \<le> 1"
  using closed_once_run_part000 [OF closed_once_init, of es]
  by (simp add: closed_once_def)


section \<open>Messages of the agent\<close>

text \<open>
  The \<^verbatim>\<open>ping\<close> case of \<^verbatim>\<open>src/outbound.js\<close>: a \<^verbatim>\<open>ping\<close> with a truthy event identifier,
  received on the open agent socket, is answered at once by one \<^verbatim>\<open>pong\<close> with the same
  identifier, and the handler does nothing else.
\<close>

theorem outbound_ping_answered:
  assumes "elevenLabsWs s = Some OPEN"
    and "type_is ''ping'' m"
    and "get (get (Val m) ''ping_event'') ''event_id'' = Val event_id"
    and "truthy (Val event_id)"
  shows "step Outbound_js s (AgentMessage (Some m)) =
           s\<lparr>agent_out := agent_out s @ [Send (pong_frame event_id)]\<rparr>"
  using assms
  by (simp add: on_agent_message_outbound_ping ping_case_outbound_def agent_send_def
        JSON_stringify_def pong_frame_def)

theorem outbound_ping_answered_witness:
  "step Outbound_js (run Outbound_js init [SocketCreated, AgentOpen])
     (AgentMessage (Some (JObj [(''type'', JStr ''ping''),
        (''ping_event'', JObj [(''event_id'', JNum 42)])]))) =
   (run Outbound_js init [SocketCreated, AgentOpen])
     \<lparr>agent_out := agent_out (run Outbound_js init [SocketCreated, AgentOpen])
        @ [Send (pong_frame (JNum 42))]\<rparr>"
proof -
  let ?m = "JObj [(''type'', JStr ''ping''), (''ping_event'', JObj [(''event_id'', JNum 42)])]"
  have a: "elevenLabsWs (run Outbound_js init [SocketCreated, AgentOpen]) = Some OPEN"
    by (simp add: init_def)
  have b: "type_is ''ping'' ?m" by (simp add: type_is_def)
  have c: "get (get (Val ?m) ''ping_event'') ''event_id'' = Val (JNum 42)" by simp
  have d: "truthy (Val (JNum 42))" by simp
  show ?thesis by (rule outbound_ping_answered [OF a b c d])
qed

text \<open>
  Claim C2 at \<^verbatim>\<open>src/unnamed/part_000\<close>, whose \<^verbatim>\<open>switch\<close> has no \<^verbatim>\<open>ping\<close> case: the
  \<^verbatim>\<open>ping\<close> with identifier 42 falls to \<^verbatim>\<open>default\<close>, is logged as unhandled, and no
  \<^verbatim>\<open>pong\<close> is sent. The initialization frame is all the agent connection ever gets.
\<close>

theorem part000_ping_unanswered:
  "agent_out (run Part_000 init
     [SocketCreated, AgentOpen,
      AgentMessage (Some (JObj [(''type'', JStr ''ping''),
        (''ping_event'', JObj [(''event_id'', JNum 42)])]))]) =
   [Send (config_frame (JStr ''Hello! How can I help?'') (JStr ''Hi there!''))]
   \<and> console (run Part_000 init
     [SocketCreated, AgentOpen,
      AgentMessage (Some (JObj [(''type'', JStr ''ping''),
        (''ping_event'', JObj [(''event_id'', JNum 42)])]))]) =
     console (run Part_000 init [SocketCreated, AgentOpen]) @
       [Line LOG ''[ElevenLabs] Unhandled message type:'' [Val (JStr ''ping'')]]"
  by (simp add: run_defs)

text \<open>
  The \<^verbatim>\<open>audio\<close> case of \<^verbatim>\<open>src/outbound.js\<close>: while \<open>streamSid\<close> is truthy, an
  \<^verbatim>\<open>audio\<close> message with a payload (in the primary or in the fallback field) makes one
  telephony \<^verbatim>\<open>media\<close> frame with the session's \<open>streamSid\<close> and that payload, and
  nothing is sent to the agent; while \<open>streamSid\<close> is not truthy the message is only
  logged.
\<close>

theorem outbound_audio_relayed:
  assumes "elevenLabsWs s = Some OPEN" and "type_is ''audio'' m"
  shows "(streamSid s = Val sid \<and> truthy (Val sid) \<and> audio_payload m = Val payload \<longrightarrow>
            twilio_out (step Outbound_js s (AgentMessage (Some m))) =
              twilio_out s @ [media_frame sid payload] \<and>
            agent_out (step Outbound_js s (AgentMessage (Some m))) = agent_out s)
       \<and> (\<not> truthy (streamSid s) \<longrightarrow>
            step Outbound_js s (AgentMessage (Some m)) =
              s\<lparr>console := console s @
                   [Line LOG ''[ElevenLabs] Received audio but no StreamSid.'' []]\<rparr>)"
  using assms
  by (simp add: on_agent_message_outbound_audio audio_case_outbound_def audio_payload_def
        or_else_def JSON_stringify_def media_frame_def say_def)

theorem outbound_audio_relayed_witness:
  "twilio_out (step Outbound_js
      ((run Outbound_js init [SocketCreated, AgentOpen])\<lparr>streamSid := Val (JStr ''S1'')\<rparr>)
      (AgentMessage (Some (JObj [(''type'', JStr ''audio''),
         (''audio_event'', JObj [(''audio_base_64'', JStr ''AAAA'')])])))) =
     twilio_out ((run Outbound_js init [SocketCreated, AgentOpen])\<lparr>streamSid := Val (JStr ''S1'')\<rparr>)
       @ [media_frame (JStr ''S1'') (JStr ''AAAA'')]
   \<and> step Outbound_js (run Outbound_js init [SocketCreated, AgentOpen])
      (AgentMessage (Some (JObj [(''type'', JStr ''audio''),
         (''audio_event'', JObj [(''audio_base_64'', JStr ''AAAA'')])]))) =
     (run Outbound_js init [SocketCreated, AgentOpen])
       \<lparr>console := console (run Outbound_js init [SocketCreated, AgentOpen]) @
          [Line LOG ''[ElevenLabs] Received audio but no StreamSid.'' []]\<rparr>"
proof -
  let ?m = "JObj [(''type'', JStr ''audio''),
         (''audio_event'', JObj [(''audio_base_64'', JStr ''AAAA'')])]"
  let ?s = "run Outbound_js init [SocketCreated, AgentOpen]"
  let ?t = "?s\<lparr>streamSid := Val (JStr ''S1'')\<rparr>"
  have a: "elevenLabsWs ?s = Some OPEN" "elevenLabsWs ?t = Some OPEN"
    by (simp_all add: init_def)
  have b: "type_is ''audio'' ?m" by (simp add: type_is_def)
  have c: "streamSid ?t = Val (JStr ''S1'')" "truthy (Val (JStr ''S1''))"
      "audio_payload ?m = Val (JStr ''AAAA'')"
    by (simp_all add: audio_payload_def)
  have d: "\<not> truthy (streamSid ?s)" by (simp add: init_def)
  show ?thesis
    using outbound_audio_relayed [OF a(2) b, of "JStr ''S1''" "JStr ''AAAA''"]
          outbound_audio_relayed [OF a(1) b, of "JStr ''S1''" "JStr ''AAAA''"] c d
    by blast
qed

text \<open>
  Claim C5 at \<^verbatim>\<open>src/unnamed/part_000\<close>, which relays an \<^verbatim>\<open>audio\<close> message only if
  \<^verbatim>\<open>audio.chunk\<close> is truthy: with \<open>streamSid\<close> known, a message that carries its
  payload in \<^verbatim>\<open>audio_event.audio_base_64\<close> makes no telephony frame (and is logged as
  lacking a StreamSid), where \<^verbatim>\<open>src/outbound.js\<close> relays it.
\<close>

theorem part000_fallback_audio_dropped:
  "twilio_out (run Part_000 init
     [TwilioMessage (Some (JObj [(''event'', JStr ''start''),
        (''start'', JObj [(''streamSid'', JStr ''S1''), (''callSid'', JStr ''C1'')])])),
      SocketCreated, AgentOpen,
      AgentMessage (Some (JObj [(''type'', JStr ''audio''),
        (''audio_event'', JObj [(''audio_base_64'', JStr ''AAAA'')])]))]) = []
   \<and> twilio_out (run Outbound_js init
     [TwilioMessage (Some (JObj [(''event'', JStr ''start''),
        (''start'', JObj [(''streamSid'', JStr ''S1''), (''callSid'', JStr ''C1'')])])),
      SocketCreated, AgentOpen,
      AgentMessage (Some (JObj [(''type'', JStr ''audio''),
        (''audio_event'', JObj [(''audio_base_64'', JStr ''AAAA'')])]))]) =
     [media_frame (JStr ''S1'') (JStr ''AAAA'')]"
  by (simp add: run_defs)


section \<open>The two files compared\<close>

text \<open>
  Claim C6, as amended. Started together and given the same events, the two files make the
  same calls on the agent socket, send the same frames to the telephony socket and keep the
  same variables (they agree; their log lines differ), as long as every event is one on
  which they coincide: the initialization frame takes both fields from
  \<open>customParameters\<close>, no \<^verbatim>\<open>ping\<close> has a truthy identifier, every \<^verbatim>\<open>audio\<close> message
  that arrives while \<open>streamSid\<close> is truthy has a truthy \<^verbatim>\<open>audio.chunk\<close>, \<^verbatim>\<open>stop\<close>
  arrives while the agent socket is open or absent, and the agent socket emits no
  \<^verbatim>\<open>error\<close>.
\<close>

theorem relays_agree_where_they_coincide:
  "coincide_run init es \<Longrightarrow> agree (run Outbound_js init es) (run Part_000 init es)"
  by (rule coincide_run_agree) simp_all

theorem relays_agree_where_they_coincide_witness:
  "agree
     (run Outbound_js init
        [TwilioMessage (Some (JObj [(''event'', JStr ''start''),
           (''start'', JObj [(''streamSid'', JStr ''S1''), (''callSid'', JStr ''C1''),
              (''customParameters'',
                 JObj [(''prompt'', JStr ''X''), (''first_message'', JStr ''Y'')])])])),
         SocketCreated, AgentOpen,
         TwilioMessage (Some (JObj [(''event'', JStr ''media''),
           (''media'', JObj [(''payload'', JStr ''AAAA'')])])),
         AgentMessage (Some (JObj [(''type'', JStr ''audio''),
           (''audio'', JObj [(''chunk'', JStr ''BBBB'')])])),
         TwilioMessage (Some (JObj [(''event'', JStr ''stop'')]))])
     (run Part_000 init
        [TwilioMessage (Some (JObj [(''event'', JStr ''start''),
           (''start'', JObj [(''streamSid'', JStr ''S1''), (''callSid'', JStr ''C1''),
              (''customParameters'',
                 JObj [(''prompt'', JStr ''X''), (''first_message'', JStr ''Y'')])])])),
         SocketCreated, AgentOpen,
         TwilioMessage (Some (JObj [(''event'', JStr ''media''),
           (''media'', JObj [(''payload'', JStr ''AAAA'')])])),
         AgentMessage (Some (JObj [(''type'', JStr ''audio''),
           (''audio'', JObj [(''chunk'', JStr ''BBBB'')])])),
         TwilioMessage (Some (JObj [(''event'', JStr ''stop'')]))])"
proof -
  let ?es = "[TwilioMessage (Some (JObj [(''event'', JStr ''start''),
           (''start'', JObj [(''streamSid'', JStr ''S1''), (''callSid'', JStr ''C1''),
              (''customParameters'',
                 JObj [(''prompt'', JStr ''X''), (''first_message'', JStr ''Y'')])])])),
         SocketCreated, AgentOpen,
         TwilioMessage (Some (JObj [(''event'', JStr ''media''),
           (''media'', JObj [(''payload'', JStr ''AAAA'')])])),
         AgentMessage (Some (JObj [(''type'', JStr ''audio''),
           (''audio'', JObj [(''chunk'', JStr ''BBBB'')])])),
         TwilioMessage (Some (JObj [(''event'', JStr ''stop'')]))]"
  have "coincide_run init ?es"
    by (simp add: run_defs event_is_def type_is_def)
  then show ?thesis by (rule relays_agree_where_they_coincide)
qed

text \<open>
  Claim C6 as stated fails: on the same events \<^verbatim>\<open>src/outbound.js\<close> sends a \<^verbatim>\<open>pong\<close> on
  the agent connection and \<^verbatim>\<open>src/unnamed/part_000\<close> does not.
\<close>

theorem relays_differ_on_ping_counterexample:
  "agent_out (run Outbound_js init
     [TwilioMessage (Some (JObj [(''event'', JStr ''start''),
        (''start'', JObj [(''streamSid'', JStr ''S1''), (''callSid'', JStr ''C1''),
           (''customParameters'',
              JObj [(''prompt'', JStr ''X''), (''first_message'', JStr ''Y'')])])])),
      SocketCreated, AgentOpen,
      AgentMessage (Some (JObj [(''type'', JStr ''ping''),
        (''ping_event'', JObj [(''event_id'', JNum 42)])]))]) =
     [Send (config_frame (JStr ''X'') (JStr ''Y'')), Send (pong_frame (JNum 42))]
   \<and> agent_out (run Part_000 init
     [TwilioMessage (Some (JObj [(''event'', JStr ''start''),
        (''start'', JObj [(''streamSid'', JStr ''S1''), (''callSid'', JStr ''C1''),
           (''customParameters'',
              JObj [(''prompt'', JStr ''X''), (''first_message'', JStr ''Y'')])])])),
      SocketCreated, AgentOpen,
      AgentMessage (Some (JObj [(''type'', JStr ''ping''),
        (''ping_event'', JObj [(''event_id'', JNum 42)])]))]) =
     [Send (config_frame (JStr ''X'') (JStr ''Y''))]"
  by (simp add: run_defs)


end
